theory Spec2Isabelle
  imports Main
begin

section \<open>Python values, dictionaries and number formatting\<close>

text \<open>
  The values the command dispatcher of \<^verbatim>\<open>browser_use.py\<close> handles: what a page
  script returns through the driver, and the response dictionaries of \<^verbatim>\<open>execute\<close>.
  A dictionary is an association list in insertion order, with unique keys.
\<close>

datatype pyval =
    PNone
  | PBool bool
  | PInt int
  | PStr string
  | PList "pyval list"
  | PDict "(string \<times> pyval) list"

text \<open>Python truthiness, as \<^verbatim>\<open>if result:\<close> reads it.\<close>

fun truthy :: "pyval \<Rightarrow> bool" where
  "truthy PNone = False"
| "truthy (PBool b) = b"
| "truthy (PInt i) = (i \<noteq> 0)"
| "truthy (PStr s) = (s \<noteq> [])"
| "truthy (PList xs) = (xs \<noteq> [])"
| "truthy (PDict kvs) = (kvs \<noteq> [])"

text \<open>\<^verbatim>\<open>d[k] = v\<close>: an existing key keeps its place, a new one goes last.\<close>

fun dict_set :: "string \<Rightarrow> pyval \<Rightarrow> (string \<times> pyval) list \<Rightarrow> (string \<times> pyval) list" where
  "dict_set k v [] = [(k, v)]"
| "dict_set k v ((k', v') # rest) =
     (if k = k' then (k', v) # rest else (k', v') # dict_set k v rest)"

text \<open>\<^verbatim>\<open>{**base, **upd}\<close>: the entries of \<open>upd\<close> are stored into \<open>base\<close> one by one.\<close>

definition dict_merge ::
  "(string \<times> pyval) list \<Rightarrow> (string \<times> pyval) list \<Rightarrow> (string \<times> pyval) list" where
  "dict_merge base upd = foldl (\<lambda>d kv. dict_set (fst kv) (snd kv) d) base upd"

definition digit_char :: "nat \<Rightarrow> char" where
  "digit_char n = char_of (48 + n)"

fun str_nat :: "nat \<Rightarrow> string" where
  "str_nat n = (if n < 10 then [digit_char n] else str_nat (n div 10) @ [digit_char (n mod 10)])"

declare str_nat.simps [simp del]

text \<open>Python's \<^verbatim>\<open>str(i)\<close> of an integer.\<close>

definition str_int :: "int \<Rightarrow> string" where
  "str_int i = (if i < 0 then CHR ''-'' # str_nat (nat (- i)) else str_nat (nat i))"

definition dq :: string where
  "dq = [CHR 0x22]"

definition sq :: string where
  "sq = [CHR 0x27]"

section \<open>The command dispatcher: \<^verbatim>\<open>BrowserUse.execute\<close>\<close>

subsection \<open>Requests, the selector map and the session\<close>

text \<open>
  A request is the \<^verbatim>\<open>params\<close> dictionary: a field is \<open>None\<close> when the key is not in
  the dictionary. The selector map is the value of \<^verbatim>\<open>context["selector_map"]\<close>: a
  dictionary from a key (a string when the map comes from the page script, an integer
  when the caller built it) to the entry of an element, itself a dictionary of which
  only the string-valued fields (\<^verbatim>\<open>tagName\<close>, \<^verbatim>\<open>xpath\<close>) are kept.
\<close>

record params =
  p_action :: "string option"
  p_index :: "int option"
  p_text :: "string option"

datatype key = KStr string | KInt int

type_synonym entry = "(string \<times> string) list"

type_synonym selector_map = "(key \<times> entry) list"

type_synonym page = nat

type_synonym handle = nat

datatype button = LeftButton | RightButton

text \<open>What \<^verbatim>\<open>window.get_clickable_elements(true)\<close> hands back to Python.\<close>

record element_result =
  er_selector_map :: "selector_map option"
  er_element_str :: "string option"

text \<open>
  The browser driver (Playwright) is outside the repository. Every call the dispatcher
  makes is a field of this record: it reads and changes a world \<open>'w\<close>, and either
  raises (\<open>Inl\<close> the exception's message) or returns.
\<close>

record 'w driver =
  drv_new_page :: "'w \<Rightarrow> (string + page) \<times> 'w"
  drv_goto :: "page \<Rightarrow> string \<Rightarrow> 'w \<Rightarrow> (string + unit) \<times> 'w"
  drv_wait_for_load_state :: "page \<Rightarrow> 'w \<Rightarrow> (string + unit) \<times> 'w"
  drv_title :: "page \<Rightarrow> 'w \<Rightarrow> (string + string) \<times> 'w"
  drv_url :: "page \<Rightarrow> 'w \<Rightarrow> string"
  drv_query_selector :: "page \<Rightarrow> string \<Rightarrow> 'w \<Rightarrow> (string + handle option) \<times> 'w"
  drv_fill :: "handle \<Rightarrow> string \<Rightarrow> 'w \<Rightarrow> (string + unit) \<times> 'w"
  drv_click :: "handle \<Rightarrow> button \<Rightarrow> 'w \<Rightarrow> (string + unit) \<times> 'w"
  drv_dblclick :: "handle \<Rightarrow> 'w \<Rightarrow> (string + unit) \<times> 'w"
  drv_eval_on_selector :: "page \<Rightarrow> string \<Rightarrow> 'w \<Rightarrow> (string + pyval) \<times> 'w"
  drv_has_builder :: "page \<Rightarrow> 'w \<Rightarrow> (string + bool) \<times> 'w"
  drv_window_handle :: "page \<Rightarrow> 'w \<Rightarrow> (string + unit) \<times> 'w"
  drv_install_builder :: "page \<Rightarrow> 'w \<Rightarrow> (string + unit) \<times> 'w"
  drv_get_highlight_element :: "page \<Rightarrow> 'w \<Rightarrow> (string + unit) \<times> 'w"
  drv_get_clickable_elements :: "page \<Rightarrow> 'w \<Rightarrow> (string + element_result) \<times> 'w"
  drv_remove_highlight :: "page \<Rightarrow> 'w \<Rightarrow> (string + unit) \<times> 'w"
  drv_extract_content :: "page \<Rightarrow> 'w \<Rightarrow> (string + string) \<times> 'w"
  drv_dropdown_options :: "page \<Rightarrow> string option \<Rightarrow> 'w \<Rightarrow> (string + pyval) \<times> 'w"
  drv_select_option :: "page \<Rightarrow> string option \<Rightarrow> string \<Rightarrow> 'w \<Rightarrow> (string + pyval) \<times> 'w"
  drv_screenshot :: "page \<Rightarrow> 'w \<Rightarrow> (string + string) \<times> 'w"
  drv_b64encode :: "string \<Rightarrow> string"

text \<open>
  The session: \<^verbatim>\<open>self.current_page\<close>, whether \<^verbatim>\<open>self.browser_context\<close> is set, the
  caller's \<^verbatim>\<open>context\<close> dictionary (its only key is \<^verbatim>\<open>selector_map\<close>) and the world
  behind the driver.
\<close>

record 'w session =
  current_page :: "page option"
  has_browser_context :: bool
  ctx_selector_map :: "selector_map option"
  world :: 'w

subsection \<open>Exceptions and state\<close>

type_synonym ('w, 'a) act = "'w session \<Rightarrow> (string + 'a) \<times> 'w session"

definition raise :: "string \<Rightarrow> ('w, 'a) act" where
  "raise msg s = (Inl msg, s)"

definition ok :: "'a \<Rightarrow> ('w, 'a) act" where
  "ok a s = (Inr a, s)"

definition and_then :: "('w, 'a) act \<Rightarrow> ('a \<Rightarrow> ('w, 'b) act) \<Rightarrow> ('w, 'b) act" where
  "and_then m f s = (case m s of (Inl e, s') \<Rightarrow> (Inl e, s') | (Inr a, s') \<Rightarrow> f a s')"

definition call :: "('w \<Rightarrow> (string + 'a) \<times> 'w) \<Rightarrow> ('w, 'a) act" where
  "call f s = (case f (world s) of (r, w') \<Rightarrow> (r, s\<lparr>world := w'\<rparr>))"

text \<open>A method call on \<^verbatim>\<open>page\<close>: on \<^verbatim>\<open>None\<close> Python raises an AttributeError.\<close>

definition attribute_error :: "string \<Rightarrow> string" where
  "attribute_error name =
     sq @ ''NoneType'' @ sq @ '' object has no attribute '' @ sq @ name @ sq"

definition on_page :: "page option \<Rightarrow> string \<Rightarrow> (page \<Rightarrow> ('w, 'a) act) \<Rightarrow> ('w, 'a) act" where
  "on_page pg name f = (case pg of None \<Rightarrow> raise (attribute_error name) | Some p \<Rightarrow> f p)"

subsection \<open>Index resolution\<close>

text \<open>
  \<^verbatim>\<open>
  selector_xpath = None
  if "index" in params and context.get("selector_map"):
      mapping = context["selector_map"].get(str(params["index"])) or context["selector_map"].get(params["index"])
      if mapping:
          selector_xpath = mapping.get("xpath")
      if not selector_xpath:
          raise Exception("Element does not exist")
  \<close>
\<close>

definition sm_get :: "selector_map \<Rightarrow> key \<Rightarrow> entry option" where
  "sm_get m k = map_of m k"

definition entry_truthy :: "entry option \<Rightarrow> bool" where
  "entry_truthy e = (case e of None \<Rightarrow> False | Some kvs \<Rightarrow> kvs \<noteq> [])"

definition str_truthy :: "string option \<Rightarrow> bool" where
  "str_truthy x = (case x of None \<Rightarrow> False | Some s \<Rightarrow> s \<noteq> [])"

definition resolve_index :: "params \<Rightarrow> selector_map option \<Rightarrow> string + string option" where
  "resolve_index p sm =
     (case p_index p of
        None \<Rightarrow> Inr None
      | Some i \<Rightarrow>
          (case sm of
             None \<Rightarrow> Inr None
           | Some m \<Rightarrow>
               if m = [] then Inr None
               else
                 let mapping = (if entry_truthy (sm_get m (KStr (str_int i)))
                                then sm_get m (KStr (str_int i)) else sm_get m (KInt i));
                     selector_xpath = (if entry_truthy mapping
                                       then map_of (the mapping) ''xpath'' else None)
                 in if \<not> str_truthy selector_xpath then Inl ''Element does not exist''
                    else Inr selector_xpath))"

subsection \<open>The operations on the page\<close>

definition set_current_page :: "page \<Rightarrow> ('w, unit) act" where
  "set_current_page pg s = (Inr (), s\<lparr>current_page := Some pg\<rparr>)"

text \<open>
  \<^verbatim>\<open>
  async def open_url(self, context, url):
      page = await self.browser_context.new_page()
      await page.goto(url, wait_until="networkidle", timeout=15000)
      await page.wait_for_load_state("load")
      self.current_page = page
      return page
  \<close>
\<close>

definition open_url :: "'w driver \<Rightarrow> string \<Rightarrow> ('w, page) act" where
  "open_url d u s =
     (if \<not> has_browser_context s then raise (attribute_error ''new_page'') s
      else and_then (call (drv_new_page d)) (\<lambda>pg.
           and_then (call (drv_goto d pg u)) (\<lambda>_.
           and_then (call (drv_wait_for_load_state d pg)) (\<lambda>_.
           and_then (set_current_page pg) (\<lambda>_.
           ok pg)))) s)"

text \<open>
  \<^verbatim>\<open>
  async def get_element(self, page, xpath):
      if not xpath:
          return None
      element = await page.query_selector(f"xpath={xpath}")
      return element
  \<close>
\<close>

definition get_element :: "'w driver \<Rightarrow> page option \<Rightarrow> string option \<Rightarrow> ('w, handle option) act" where
  "get_element d pg xp =
     (if \<not> str_truthy xp then ok None
      else on_page pg ''query_selector''
             (\<lambda>p. call (drv_query_selector d p (''xpath='' @ the xp))))"

definition ensure_page :: "('w, page) act" where
  "ensure_page s =
     (case current_page s of
        None \<Rightarrow> raise ''No page open; call open_url first.'' s
      | Some pg \<Rightarrow> ok pg s)"

definition inject_dom_builder :: "'w driver \<Rightarrow> ('w, unit) act" where
  "inject_dom_builder d =
     and_then ensure_page (\<lambda>pg.
     and_then (call (drv_has_builder d pg)) (\<lambda>present.
       if \<not> present then
         and_then (call (drv_window_handle d pg)) (\<lambda>_.
         and_then (call (drv_install_builder d pg)) (\<lambda>_.
         call (drv_get_highlight_element d pg)))
       else ok ()))"

subsection \<open>The branches of \<^verbatim>\<open>execute\<close>\<close>

definition do_open_url :: "'w driver \<Rightarrow> params \<Rightarrow> ('w, pyval) act" where
  "do_open_url d p =
     (case p_text p of
        None \<Rightarrow> raise ''text (url) parameter is required''
      | Some u \<Rightarrow>
          and_then (open_url d u) (\<lambda>pg.
          and_then (call (drv_title d pg)) (\<lambda>t.
          (\<lambda>s. ok (PDict [(''title'', PStr t), (''url'', PStr (drv_url d pg (world s))),
                           (''success'', PBool True)]) s))))"

definition do_input_text ::
  "'w driver \<Rightarrow> params \<Rightarrow> page option \<Rightarrow> string option \<Rightarrow> ('w, pyval) act" where
  "do_input_text d p pg xp =
     (if p_index p = None then raise ''index parameter is required''
      else case p_text p of
        None \<Rightarrow> raise ''text parameter is required''
      | Some t \<Rightarrow>
          and_then (get_element d pg xp) (\<lambda>element.
            case element of
              Some h \<Rightarrow>
                and_then (call (drv_fill d h [])) (\<lambda>_.
                and_then (call (drv_fill d h t)) (\<lambda>_.
                ok (PBool True)))
            | None \<Rightarrow> ok (PBool False)))"

definition do_click ::
  "'w driver \<Rightarrow> params \<Rightarrow> string \<Rightarrow> page option \<Rightarrow> string option \<Rightarrow> ('w, pyval) act" where
  "do_click d p action pg xp =
     (if p_index p = None then raise ''index parameter is required''
      else
        and_then (get_element d pg xp) (\<lambda>element.
          case element of
            Some h \<Rightarrow>
              and_then
                (if action = ''click'' then call (drv_click d h LeftButton)
                 else if action = ''right_click'' then call (drv_click d h RightButton)
                 else if action = ''double_click'' then call (drv_dblclick d h)
                 else ok ())
                (\<lambda>_. ok (PBool True))
          | None \<Rightarrow> ok (PBool False)))"

definition format_xpath :: "string option \<Rightarrow> string" where
  "format_xpath xp = ''xpath='' @ (case xp of None \<Rightarrow> ''None'' | Some x \<Rightarrow> x)"

definition do_scroll_to ::
  "'w driver \<Rightarrow> params \<Rightarrow> page option \<Rightarrow> string option \<Rightarrow> ('w, pyval) act" where
  "do_scroll_to d p pg xp =
     (if p_index p = None then raise ''index parameter is required''
      else on_page pg ''eval_on_selector''
             (\<lambda>pg'. call (drv_eval_on_selector d pg' (format_xpath xp))))"

definition do_extract_content :: "'w driver \<Rightarrow> page option \<Rightarrow> ('w, pyval) act" where
  "do_extract_content d pg =
     and_then (on_page pg ''evaluate'' (\<lambda>pg'. call (drv_extract_content d pg'))) (\<lambda>content.
     and_then (on_page pg ''title'' (\<lambda>pg'. call (drv_title d pg'))) (\<lambda>t.
     on_page pg ''url'' (\<lambda>pg' s.
       ok (PDict [(''title'', PStr t), (''url'', PStr (drv_url d pg' (world s))),
                  (''content'', PStr content)]) s)))"

definition do_get_dropdown_options ::
  "'w driver \<Rightarrow> params \<Rightarrow> page option \<Rightarrow> string option \<Rightarrow> ('w, pyval) act" where
  "do_get_dropdown_options d p pg xp =
     (if p_index p = None then raise ''index parameter is required''
      else on_page pg ''evaluate'' (\<lambda>pg'. call (drv_dropdown_options d pg' xp)))"

definition do_select_dropdown_option ::
  "'w driver \<Rightarrow> params \<Rightarrow> page option \<Rightarrow> string option \<Rightarrow> ('w, pyval) act" where
  "do_select_dropdown_option d p pg xp =
     (if p_index p = None then raise ''index parameter is required''
      else case p_text p of
        None \<Rightarrow> raise ''text parameter is required''
      | Some t \<Rightarrow> on_page pg ''evaluate'' (\<lambda>pg'. call (drv_select_option d pg' xp t)))"

definition set_selector_map :: "selector_map \<Rightarrow> ('w, unit) act" where
  "set_selector_map m s = (Inr (), s\<lparr>ctx_selector_map := Some m\<rparr>)"

definition do_screenshot_extract_element :: "'w driver \<Rightarrow> page option \<Rightarrow> ('w, pyval) act" where
  "do_screenshot_extract_element d pg =
     and_then (inject_dom_builder d) (\<lambda>_.
     and_then (on_page pg ''evaluate'' (\<lambda>pg'. call (drv_get_clickable_elements d pg'))) (\<lambda>er.
     and_then (set_selector_map (case er_selector_map er of None \<Rightarrow> [] | Some m \<Rightarrow> m)) (\<lambda>_.
     and_then (on_page pg ''screenshot'' (\<lambda>pg'. call (drv_screenshot d pg'))) (\<lambda>bytes.
     and_then (on_page pg ''evaluate'' (\<lambda>pg'. call (drv_remove_highlight d pg'))) (\<lambda>_.
     ok (PDict [(''image'', PDict [(''type'', PStr ''base64''),
                                   (''media_type'', PStr ''image/jpeg''),
                                   (''data'', PStr (drv_b64encode d bytes))]),
                (''text'', PStr (case er_element_str er of None \<Rightarrow> [] | Some t \<Rightarrow> t))]))))))"

definition invalid_action :: "string \<Rightarrow> string" where
  "invalid_action action = ''Invalid action: '' @ dq @ action @ dq @ '' is not recognized.''"

definition invalid_parameters :: string where
  "invalid_parameters =
     ''Invalid parameters. Expected an object with an '' @ dq @ ''action'' @ dq @ '' property.''"

text \<open>
  The body of the \<^verbatim>\<open>try\<close> block of \<^verbatim>\<open>execute\<close> up to the point where \<^verbatim>\<open>result\<close> is
  known. The \<^verbatim>\<open>asyncio.sleep\<close> calls only wait and are left out.
\<close>

definition effect :: "'w driver \<Rightarrow> params \<Rightarrow> ('w, pyval) act" where
  "effect d p s =
     (case p_action p of
        None \<Rightarrow> raise invalid_parameters s
      | Some action \<Rightarrow>
          let pg = current_page s in
          (case resolve_index p (ctx_selector_map s) of
             Inl e \<Rightarrow> raise e s
           | Inr selector_xpath \<Rightarrow>
               (if action = ''open_url'' then do_open_url d p
                else if action = ''input_text'' then do_input_text d p pg selector_xpath
                else if action \<in> set [''click'', ''right_click'', ''double_click'']
                  then do_click d p action pg selector_xpath
                else if action = ''scroll_to'' then do_scroll_to d p pg selector_xpath
                else if action = ''extract_content'' then do_extract_content d pg
                else if action = ''get_dropdown_options''
                  then do_get_dropdown_options d p pg selector_xpath
                else if action = ''select_dropdown_option''
                  then do_select_dropdown_option d p pg selector_xpath
                else if action = ''screenshot_extract_element''
                  then do_screenshot_extract_element d pg
                else raise (invalid_action action)) s))"

text \<open>
  \<^verbatim>\<open>
  if result:
      if isinstance(result, dict):
          return {"success": True, **result}
      else:
          return {"success": True, "result": result}
  else:
      return {"success": False}
  \<close>
\<close>

definition wrap_result :: "pyval \<Rightarrow> pyval" where
  "wrap_result result =
     (if truthy result then
        (case result of
           PDict kvs \<Rightarrow> PDict (dict_merge [(''success'', PBool True)] kvs)
         | _ \<Rightarrow> PDict [(''success'', PBool True), (''result'', result)])
      else PDict [(''success'', PBool False)])"

definition failure :: "string \<Rightarrow> pyval" where
  "failure msg = PDict [(''success'', PBool False), (''error'', PStr msg)]"

text \<open>\<^verbatim>\<open>execute\<close>: the response and the session after the call.\<close>

definition execute :: "'w driver \<Rightarrow> params \<Rightarrow> 'w session \<Rightarrow> pyval \<times> 'w session" where
  "execute d p s =
     (case effect d p s of
        (Inl e, s') \<Rightarrow> (failure e, s')
      | (Inr result, s') \<Rightarrow> (wrap_result result, s'))"

text \<open>The ten names of the \<^verbatim>\<open>enum\<close> of the input schema.\<close>

definition actions :: "string list" where
  "actions = [''screenshot_extract_element'', ''open_url'', ''input_text'', ''click'',
              ''right_click'', ''double_click'', ''scroll_to'', ''extract_content'',
              ''get_dropdown_options'', ''select_dropdown_option'']"

text \<open>
  A driver to run the dispatcher on: the world counts the pages opened so far, every
  call succeeds, and only the locator \<^verbatim>\<open>xpath=html/body/a\<close> finds an element.
\<close>

definition demo_driver :: "nat driver" where
  "demo_driver =
     \<lparr> drv_new_page = (\<lambda>w. (Inr w, Suc w)),
       drv_goto = (\<lambda>pg u w. (Inr (), w)),
       drv_wait_for_load_state = (\<lambda>pg w. (Inr (), w)),
       drv_title = (\<lambda>pg w. (Inr ''Example'', w)),
       drv_url = (\<lambda>pg w. ''https://example.test/''),
       drv_query_selector = (\<lambda>pg sel w. (Inr (if sel = ''xpath=html/body/a'' then Some 0 else None), w)),
       drv_fill = (\<lambda>h t w. (Inr (), w)),
       drv_click = (\<lambda>h b w. (Inr (), w)),
       drv_dblclick = (\<lambda>h w. (Inr (), w)),
       drv_eval_on_selector = (\<lambda>pg sel w. (Inr (PBool True), w)),
       drv_has_builder = (\<lambda>pg w. (Inr True, w)),
       drv_window_handle = (\<lambda>pg w. (Inr (), w)),
       drv_install_builder = (\<lambda>pg w. (Inr (), w)),
       drv_get_highlight_element = (\<lambda>pg w. (Inr (), w)),
       drv_get_clickable_elements =
         (\<lambda>pg w. (Inr \<lparr> er_selector_map = Some [], er_element_str = Some [] \<rparr>, w)),
       drv_remove_highlight = (\<lambda>pg w. (Inr (), w)),
       drv_extract_content = (\<lambda>pg w. (Inr ''content'', w)),
       drv_dropdown_options = (\<lambda>pg xp w. (Inr PNone, w)),
       drv_select_option = (\<lambda>pg xp t w. (Inr PNone, w)),
       drv_screenshot = (\<lambda>pg w. (Inr ''bytes'', w)),
       drv_b64encode = (\<lambda>b. b) \<rparr>"

definition fresh_session :: "nat session" where
  "fresh_session =
     \<lparr> current_page = None, has_browser_context = True, ctx_selector_map = None, world = 0 \<rparr>"

text \<open>
  A session with a page open and a snapshot taken: index 0 is the link
  \<^verbatim>\<open>html/body/a\<close>.
\<close>

definition page_session :: "nat session" where
  "page_session =
     \<lparr> current_page = Some 0, has_browser_context = True,
       ctx_selector_map = Some [(KStr ''0'', [(''tagName'', ''a''), (''xpath'', ''html/body/a'')])],
       world = 1 \<rparr>"

text \<open>The same session when the element of index 0 is no longer in the page.\<close>

definition stale_session :: "nat session" where
  "stale_session =
     page_session \<lparr> ctx_selector_map := Some [(KStr ''0'', [(''xpath'', ''html/body/p'')])] \<rparr>"

definition request :: "string \<Rightarrow> int option \<Rightarrow> string option \<Rightarrow> params" where
  "request a i t = \<lparr> p_action = Some a, p_index = i, p_text = t \<rparr>"

text \<open>A response reports success when its \<^verbatim>\<open>success\<close> field is \<^verbatim>\<open>True\<close>.\<close>

definition succeeded :: "pyval \<Rightarrow> bool" where
  "succeeded r = (case r of PDict kvs \<Rightarrow> map_of kvs ''success'' = Some (PBool True) | _ \<Rightarrow> False)"

text \<open>An action keeps the current page of every session it runs in.\<close>

definition keeps_page :: "('w, 'a) act \<Rightarrow> bool" where
  "keeps_page m = (\<forall>s. current_page (snd (m s)) = current_page s)"

section \<open>The page script: strings\<close>

text \<open>
  A character of a script string is a UTF-16 code unit; the model keeps the code units
  below 256, which is what the type \<open>char\<close> holds. On these, \<^verbatim>\<open>toLowerCase\<close> maps the
  letters A to Z and the capital letters U+00C0 to U+00DE (U+00D7, the multiplication
  sign, apart) to the code unit 32 higher, and the white space that \<^verbatim>\<open>trim\<close> strips is
  tab, line feed, vertical tab, form feed, carriage return, space and the no-break space
  U+00A0. The white space of JavaScript above U+00FF is outside the type.
\<close>

definition lower_char :: "char \<Rightarrow> char" where
  "lower_char c =
     (let n = (of_char c :: nat)
      in if (65 \<le> n \<and> n \<le> 90) \<or> (192 \<le> n \<and> n \<le> 222 \<and> n \<noteq> 215)
         then char_of (n + 32) else c)"

definition toLowerCase :: "string \<Rightarrow> string" where
  "toLowerCase s = map lower_char s"

definition is_space :: "char \<Rightarrow> bool" where
  "is_space c =
     (let n = (of_char c :: nat) in (9 \<le> n \<and> n \<le> 13) \<or> n = 32 \<or> n = 160)"

definition trim :: "string \<Rightarrow> string" where
  "trim s = rev (dropWhile is_space (rev (dropWhile is_space s)))"

fun join :: "string \<Rightarrow> string list \<Rightarrow> string" where
  "join sep [] = []"
| "join sep [x] = x"
| "join sep (x # y # ys) = x @ sep @ join sep (y # ys)"

text \<open>\<^verbatim>\<open>s.replace(/\n+/g, ' ')\<close>: every maximal run of line feeds becomes one space.\<close>

fun replace_newlines_from :: "bool \<Rightarrow> string \<Rightarrow> string" where
  "replace_newlines_from in_run [] = []"
| "replace_newlines_from in_run (c # cs) =
     (if c = CHR 0x0A then
        (if in_run then replace_newlines_from True cs
         else CHR '' '' # replace_newlines_from True cs)
      else c # replace_newlines_from False cs)"

definition replace_newlines :: "string \<Rightarrow> string" where
  "replace_newlines s = replace_newlines_from False s"

section \<open>The page script: the element classifier\<close>

text \<open>
  What the classifier reads of a live element. The attribute list is the element's
  attributes in order (names in lower case, as an HTML document stores them);
  \<open>el_on_handlers\<close> lists the event types whose \<^verbatim>\<open>on<type>\<close> property is set;
  \<open>el_inspect\<close> is what \<^verbatim>\<open>window.getEventListeners?.(el)\<close> does; \<open>el_hit\<close> is the
  outcome of the hit test at the element's centre, in the document or in the element's
  own shadow root.
\<close>

datatype inspect =
    NoInspectApi
  | InspectThrows
  | InspectListeners "(string \<times> nat) list"

datatype hit_test =
    HitThrows
  | HitNothing
  | HitReaches bool

record element =
  el_tagName :: string
  el_attributes :: "(string \<times> string) list"
  el_on_handlers :: "string list"
  el_inspect :: inspect
  el_draggable :: bool
  el_offsetWidth :: int
  el_offsetHeight :: int
  el_visibility :: string
  el_display :: string
  el_in_frame_document :: bool
  el_in_shadow_tree :: bool
  el_hit :: hit_test
  el_has_shadowRoot :: bool
  el_frame_accessible :: bool

definition getAttribute :: "element \<Rightarrow> string \<Rightarrow> string option" where
  "getAttribute e name = map_of (el_attributes e) name"

definition hasAttribute :: "element \<Rightarrow> string \<Rightarrow> bool" where
  "hasAttribute e name = (getAttribute e name \<noteq> None)"

definition leafElementDenyList :: "string list" where
  "leafElementDenyList = [''svg'', ''script'', ''style'', ''link'', ''meta'']"

definition isElementAccepted :: "element \<Rightarrow> bool" where
  "isElementAccepted e = (toLowerCase (el_tagName e) \<notin> set leafElementDenyList)"

definition interactiveElements :: "string list" where
  "interactiveElements =
     [''a'', ''button'', ''details'', ''embed'', ''input'', ''label'', ''menu'', ''menuitem'',
      ''object'', ''select'', ''textarea'', ''summary'']"

definition interactiveRoles :: "string list" where
  "interactiveRoles =
     [''button'', ''menu'', ''menuitem'', ''link'', ''checkbox'', ''radio'', ''slider'', ''tab'',
      ''tabpanel'', ''textbox'', ''combobox'', ''grid'', ''listbox'', ''option'', ''progressbar'',
      ''scrollbar'', ''searchbox'', ''switch'', ''tree'', ''treeitem'', ''spinbutton'', ''tooltip'',
      ''a-button-inner'', ''a-dropdown-button'', ''click'', ''menuitemcheckbox'',
      ''menuitemradio'', ''a-button-text'', ''button-text'', ''button-icon'',
      ''button-icon-only'', ''button-text-icon-only'', ''dropdown'', ''combobox'']"

text \<open>\<^verbatim>\<open>interactiveRoles.has(role)\<close>, where \<^verbatim>\<open>role\<close> is \<^verbatim>\<open>null\<close> without the attribute.\<close>

definition has_role :: "string option \<Rightarrow> bool" where
  "has_role r = (case r of None \<Rightarrow> False | Some v \<Rightarrow> v \<in> set interactiveRoles)"

definition hasInteractiveRole :: "element \<Rightarrow> bool" where
  "hasInteractiveRole e =
     (let tagName = toLowerCase (el_tagName e);
          role = getAttribute e ''role'';
          ariaRole = getAttribute e ''aria-role'';
          tabIndex = getAttribute e ''tabindex''
      in tagName \<in> set interactiveElements \<or>
         has_role role \<or>
         has_role ariaRole \<or>
         (tabIndex \<noteq> None \<and> tabIndex \<noteq> Some ''-1'') \<or>
         getAttribute e ''data-action'' = Some ''a-dropdown-select'' \<or>
         getAttribute e ''data-action'' = Some ''a-dropdown-button'')"

definition hasClickHandler :: "element \<Rightarrow> bool" where
  "hasClickHandler e =
     (''click'' \<in> set (el_on_handlers e) \<or>
      getAttribute e ''onclick'' \<noteq> None \<or>
      hasAttribute e ''ng-click'' \<or>
      hasAttribute e ''@click'' \<or>
      hasAttribute e ''v-on:click'')"

definition eventTypes :: "string list" where
  "eventTypes = [''click'', ''mousedown'', ''mouseup'', ''touchstart'', ''touchend'', ''keydown'',
                 ''keyup'', ''focus'', ''blur'']"

text \<open>
  \<^verbatim>\<open>getEventListeners(el)\<close>: the inspection API when the host has one, the empty object
  when it has none, and the \<^verbatim>\<open>on<type>\<close> properties when the call throws. The result
  maps an event type to the number of its listeners.
\<close>

definition getEventListeners :: "element \<Rightarrow> (string \<times> nat) list" where
  "getEventListeners e =
     (case el_inspect e of
        NoInspectApi \<Rightarrow> []
      | InspectListeners ls \<Rightarrow> ls
      | InspectThrows \<Rightarrow> map (\<lambda>t. (t, 1)) (filter (\<lambda>t. t \<in> set (el_on_handlers e)) eventTypes))"

definition listener_count :: "(string \<times> nat) list \<Rightarrow> string \<Rightarrow> nat" where
  "listener_count ls t = (case map_of ls t of None \<Rightarrow> 0 | Some n \<Rightarrow> n)"

definition hasClickListeners :: "element \<Rightarrow> bool" where
  "hasClickListeners e =
     (let listeners = getEventListeners e
      in listener_count listeners ''click'' > 0 \<or>
         listener_count listeners ''mousedown'' > 0 \<or>
         listener_count listeners ''mouseup'' > 0 \<or>
         listener_count listeners ''touchstart'' > 0 \<or>
         listener_count listeners ''touchend'' > 0)"

definition hasAriaProps :: "element \<Rightarrow> bool" where
  "hasAriaProps e =
     (hasAttribute e ''aria-expanded'' \<or>
      hasAttribute e ''aria-pressed'' \<or>
      hasAttribute e ''aria-selected'' \<or>
      hasAttribute e ''aria-checked'')"

definition isDraggable :: "element \<Rightarrow> bool" where
  "isDraggable e = (el_draggable e \<or> getAttribute e ''draggable'' = Some ''true'')"

definition isInteractiveElement :: "element \<Rightarrow> bool" where
  "isInteractiveElement e =
     (if hasInteractiveRole e then True
      else hasAriaProps e \<or> hasClickHandler e \<or> hasClickListeners e \<or> isDraggable e)"

definition isElementVisible :: "element \<Rightarrow> bool" where
  "isElementVisible e =
     (el_offsetWidth e > 0 \<and> el_offsetHeight e > 0 \<and>
      el_visibility e \<noteq> ''hidden'' \<and> el_display e \<noteq> ''none'')"

text \<open>
  \<^verbatim>\<open>isTopElement\<close>: an element of a frame's document is topmost by default; otherwise the
  hit test at the centre decides (in the shadow root's context for an element of a
  shadow tree), and an exception of the hit test counts as topmost. \<open>HitReaches b\<close>: the
  walk from the hit element through \<^verbatim>\<open>parentElement\<close> reaches the element, or does not.
\<close>

definition isTopElement :: "element \<Rightarrow> bool" where
  "isTopElement e =
     (if el_in_frame_document e then True
      else if el_in_shadow_tree e then
        (case el_hit e of HitThrows \<Rightarrow> True | HitNothing \<Rightarrow> False | HitReaches b \<Rightarrow> b)
      else
        (case el_hit e of HitThrows \<Rightarrow> True | HitNothing \<Rightarrow> False | HitReaches b \<Rightarrow> b))"

text \<open>A text node: its content, the rectangle of its range, and its parent's check.\<close>

record text_node =
  tn_textContent :: string
  tn_width :: int
  tn_height :: int
  tn_top :: int
  tn_parent_checkVisibility :: bool

definition isTextNodeVisible :: "int \<Rightarrow> text_node \<Rightarrow> bool" where
  "isTextNodeVisible innerHeight t =
     (tn_width t \<noteq> 0 \<and> tn_height t \<noteq> 0 \<and> tn_top t \<ge> 0 \<and> tn_top t \<le> innerHeight \<and>
      tn_parent_checkVisibility t)"

text \<open>A plain element with the given tag and attributes, visible and on top.\<close>

definition plain_element :: "string \<Rightarrow> (string \<times> string) list \<Rightarrow> element" where
  "plain_element tag attrs =
     \<lparr> el_tagName = tag, el_attributes = attrs, el_on_handlers = [], el_inspect = NoInspectApi,
       el_draggable = False, el_offsetWidth = 100, el_offsetHeight = 20,
       el_visibility = ''visible'', el_display = ''block'', el_in_frame_document = False,
       el_in_shadow_tree = False, el_hit = HitReaches True, el_has_shadowRoot = False,
       el_frame_accessible = False \<rparr>"

section \<open>The page script: structural locators\<close>

text \<open>
  \<^verbatim>\<open>getXPathTree\<close> walks from an element through \<^verbatim>\<open>parentNode\<close> and, at each element,
  through \<^verbatim>\<open>previousSibling\<close>. A location holds what the walk reads: the node name, the
  previous siblings (nearest first) and what stands above. \<open>NoParent\<close>: the parent is
  \<^verbatim>\<open>null\<close> or a node that is neither an element nor a shadow root (the document).
  The two boundary tests of the walk are \<^verbatim>\<open>instanceof ShadowRoot\<close> and
  \<^verbatim>\<open>instanceof HTMLIFrameElement\<close>, against the constructors of the window the script
  runs in: the flag of \<open>ShadowRootParent\<close> and the first flag of \<open>ElementParent\<close> say
  whether the test holds. It fails for a shadow root that belongs to a frame's document,
  whose constructor is the frame's own.
\<close>

datatype sibling = Sibling (sib_is_element: bool) (sib_nodeName: string)

datatype ancestry =
    NoParent
  | ShadowRootParent (par_is_ShadowRoot: bool)
  | ElementParent (par_is_iframe: bool) (par_nodeName: string) (par_prev: "sibling list")
      (par_parent: ancestry)

definition same_tag_before :: "string \<Rightarrow> sibling list \<Rightarrow> nat" where
  "same_tag_before name prev =
     length (filter (\<lambda>s. sib_is_element s \<and> sib_nodeName s = name) prev)"

definition xpath_segment :: "string \<Rightarrow> sibling list \<Rightarrow> string" where
  "xpath_segment name prev =
     (let index = same_tag_before name prev;
          tagName = toLowerCase name;
          xpathIndex = (if index > 0 then ''['' @ str_nat (index + 1) @ '']'' else [])
      in tagName @ xpathIndex)"

text \<open>The \<^verbatim>\<open>while\<close> loop of \<^verbatim>\<open>getXPathTree\<close>; \<open>segments\<close> grows at the front.\<close>

fun xpath_segments :: "bool \<Rightarrow> string \<Rightarrow> sibling list \<Rightarrow> ancestry \<Rightarrow> string list \<Rightarrow> string list" where
  "xpath_segments stopAtBoundary name prev NoParent segments =
     xpath_segment name prev # segments"
| "xpath_segments stopAtBoundary name prev (ShadowRootParent is_ShadowRoot) segments =
     (if stopAtBoundary \<and> is_ShadowRoot then segments
      else xpath_segment name prev # segments)"
| "xpath_segments stopAtBoundary name prev (ElementParent iframe pname pprev up) segments =
     (if stopAtBoundary \<and> iframe then segments
      else xpath_segments stopAtBoundary pname pprev up (xpath_segment name prev # segments))"

definition getXPathTree :: "string \<Rightarrow> sibling list \<Rightarrow> ancestry \<Rightarrow> bool \<Rightarrow> string" where
  "getXPathTree name prev up stopAtBoundary =
     join ''/'' (xpath_segments stopAtBoundary name prev up [])"

section \<open>The page script: the snapshot builder\<close>

subsection \<open>The live document\<close>

text \<open>
  A node of the live document: a text node, an element, or any other node (a comment).
  An element carries what the classifier reads of it and three child lists: the child
  nodes of its shadow root (read when \<open>el_has_shadowRoot\<close>), the child nodes of the body
  of its frame's document (read for an \<^verbatim>\<open>IFRAME\<close> when \<open>el_frame_accessible\<close>), and its
  own child nodes.
\<close>

datatype dom =
    TextNode text_node
  | OtherNode
  | Element element "dom list" "dom list" "dom list"

fun sibling_of :: "dom \<Rightarrow> sibling" where
  "sibling_of (TextNode t) = Sibling False ''#text''"
| "sibling_of OtherNode = Sibling False ''#comment''"
| "sibling_of (Element e shadow frame kids) = Sibling True (el_tagName e)"

text \<open>
  Where \<^verbatim>\<open>document.body\<close> stands, in the page and in a frame's document: the second
  child of \<^verbatim>\<open>html\<close>, after \<^verbatim>\<open>head\<close>.
\<close>

definition html_location :: ancestry where
  "html_location = ElementParent False ''HTML'' [] NoParent"

definition body_prev :: "sibling list" where
  "body_prev = [Sibling True ''HEAD'']"

definition body_location :: ancestry where
  "body_location = ElementParent False ''BODY'' body_prev html_location"

subsection \<open>The tree the builder returns\<close>

record node_info =
  nd_tagName :: "string option"
  nd_attributes :: "(string \<times> string) list"
  nd_xpath :: "string option"
  nd_isInteractive :: "bool option"
  nd_isVisible :: "bool option"
  nd_isTopElement :: "bool option"
  nd_highlightIndex :: "int option"
  nd_shadowRoot :: bool

text \<open>The children of a node keep the \<^verbatim>\<open>null\<close> of every rejected child.\<close>

datatype node_data =
    TextData string bool
  | NodeData node_info "node_data option list"

subsection \<open>The builder's state\<close>

text \<open>
  \<open>highlightIndex\<close> is the counter of \<^verbatim>\<open>build_dom_tree\<close>; \<open>clickable_elements\<close> is
  \<^verbatim>\<open>window.clickable_elements\<close>; \<open>highlights\<close> lists the calls of \<^verbatim>\<open>highlightElement\<close>
  in order, each with the index, the colour of the box and whether the element is in a
  frame. The pixel arithmetic that places the box and its label is left out.
\<close>

record highlight =
  hl_index :: int
  hl_colour :: string
  hl_in_frame :: bool

record builder =
  highlightIndex :: int
  clickable_elements :: "(int \<times> element) list"
  highlights :: "highlight list"

definition colors :: "string list" where
  "colors = [''#FF0000'', ''#00FF00'', ''#0000FF'', ''#FFA500'', ''#800080'', ''#008080'',
             ''#FF69B4'', ''#4B0082'', ''#FF4500'', ''#2E8B57'', ''#DC143C'', ''#4682B4'']"

definition highlightElement :: "element \<Rightarrow> int \<Rightarrow> bool \<Rightarrow> builder \<Rightarrow> builder" where
  "highlightElement e index parentIframe st =
     (let colorIndex = nat (index mod int (length colors));
          baseColor = colors ! colorIndex
      in st\<lparr>highlights := highlights st @
              [\<lparr> hl_index = index, hl_colour = baseColor, hl_in_frame = parentIframe \<rparr>]\<rparr>)"

text \<open>\<^verbatim>\<open>obj[k] = v\<close> on an object used as a map.\<close>

fun obj_set :: "'k \<Rightarrow> 'v \<Rightarrow> ('k \<times> 'v) list \<Rightarrow> ('k \<times> 'v) list" where
  "obj_set k v [] = [(k, v)]"
| "obj_set k v ((k', v') # rest) =
     (if k = k' then (k', v) # rest else (k', v') # obj_set k v rest)"

record build_env =
  doHighlightElements :: bool
  innerHeight :: int

subsection \<open>\<^verbatim>\<open>buildDomTree\<close>\<close>

text \<open>
  The part of \<^verbatim>\<open>buildDomTree\<close> that classifies an element and assigns the next index:
  \<^verbatim>\<open>
  if (isInteractive && isVisible && isTop) {
    nodeData.highlightIndex = highlightIndex++;
    window.clickable_elements[nodeData.highlightIndex] = node;
    if (doHighlightElements) {
      highlightElement(node, nodeData.highlightIndex, parentIframe);
    }
  }
  \<close>
\<close>

definition assign_index :: "build_env \<Rightarrow> bool \<Rightarrow> element \<Rightarrow> builder \<Rightarrow> int option \<times> builder" where
  "assign_index env parentIframe e st =
     (if isInteractiveElement e \<and> isElementVisible e \<and> isTopElement e then
        (let index = highlightIndex st;
             st1 = st\<lparr>highlightIndex := highlightIndex st + 1\<rparr>;
             st2 = st1\<lparr>clickable_elements := obj_set index e (clickable_elements st1)\<rparr>;
             st3 = (if doHighlightElements env then highlightElement e index parentIframe st2
                    else st2)
         in (Some index, st3))
      else (None, st))"

text \<open>
  \<^verbatim>\<open>nodeData.attributes[name] = node.getAttribute(name)\<close> on the plain object
  \<^verbatim>\<open>{}\<close>: every attribute becomes a property of its own, except one named
  \<^verbatim>\<open>__proto__\<close>, whose assignment of a string is ignored.
\<close>

definition own_attributes :: "(string \<times> string) list \<Rightarrow> (string \<times> string) list" where
  "own_attributes attrs = filter (\<lambda>kv. fst kv \<noteq> ''__proto__'') attrs"

definition tag_data :: "element \<Rightarrow> string option" where
  "tag_data e = (if el_tagName e \<noteq> [] then Some (toLowerCase (el_tagName e)) else None)"

text \<open>
  \<^verbatim>\<open>buildDomTree(node, parentIframe)\<close>, with the location of the node for its locator
  (its previous siblings and what stands above it) and the state threaded through.
  \<open>buildChildren\<close> is \<^verbatim>\<open>Array.from(childNodes).map(child => buildDomTree(child, ...))\<close>.
  \<open>parentIframe\<close> says whether the node belongs to a frame's document; the shadow root of
  such a node is not an instance of the window's \<^verbatim>\<open>ShadowRoot\<close>.
\<close>

fun buildDomTree ::
    "build_env \<Rightarrow> bool \<Rightarrow> sibling list \<Rightarrow> ancestry \<Rightarrow> dom \<Rightarrow> builder \<Rightarrow> node_data option \<times> builder"
  and buildChildren ::
    "build_env \<Rightarrow> bool \<Rightarrow> sibling list \<Rightarrow> ancestry \<Rightarrow> dom list \<Rightarrow> builder
       \<Rightarrow> node_data option list \<times> builder"
where
  "buildDomTree env parentIframe prev up (TextNode t) st =
     (let textContent = trim (tn_textContent t)
      in if textContent \<noteq> [] \<and> isTextNodeVisible (innerHeight env) t
         then (Some (TextData textContent True), st)
         else (None, st))"
| "buildDomTree env parentIframe prev up OtherNode st =
     (Some (NodeData \<lparr> nd_tagName = None, nd_attributes = [], nd_xpath = None,
                       nd_isInteractive = None, nd_isVisible = None, nd_isTopElement = None,
                       nd_highlightIndex = None, nd_shadowRoot = False \<rparr> []), st)"
| "buildDomTree env parentIframe prev up (Element e shadow frame kids) st =
     (if \<not> isElementAccepted e then (None, st)
      else
        let (index, st1) = assign_index env parentIframe e st;
            (shadowChildren, st2) =
              (if el_has_shadowRoot e
               then buildChildren env parentIframe [] (ShadowRootParent (\<not> parentIframe))
                      shadow st1
               else ([], st1));
            (children, st3) =
              (if el_tagName e = ''IFRAME'' then
                 (if el_frame_accessible e
                  then buildChildren env True [] body_location frame st2
                  else ([], st2))
               else buildChildren env parentIframe []
                      (ElementParent False (el_tagName e) prev up) kids st2)
        in (Some (NodeData
                   \<lparr> nd_tagName = tag_data e,
                     nd_attributes = own_attributes (el_attributes e),
                     nd_xpath = Some (getXPathTree (el_tagName e) prev up True),
                     nd_isInteractive = Some (isInteractiveElement e),
                     nd_isVisible = Some (isElementVisible e),
                     nd_isTopElement = Some (isTopElement e),
                     nd_highlightIndex = index,
                     nd_shadowRoot = el_has_shadowRoot e \<rparr>
                   (shadowChildren @ children)), st3))"
| "buildChildren env parentIframe prev up [] st = ([], st)"
| "buildChildren env parentIframe prev up (child # rest) st =
     (let (r, st1) = buildDomTree env parentIframe prev up child st;
          (rs, st2) = buildChildren env parentIframe (sibling_of child # prev) up rest st1
      in (r # rs, st2))"

definition new_builder :: builder where
  "new_builder = \<lparr> highlightIndex = 0, clickable_elements = [], highlights = [] \<rparr>"

text \<open>\<^verbatim>\<open>build_dom_tree(doHighlightElements)\<close>, on the body of the page.\<close>

definition build_dom_tree :: "build_env \<Rightarrow> dom \<Rightarrow> node_data option \<times> builder" where
  "build_dom_tree env body = buildDomTree env False body_prev html_location body new_builder"

subsection \<open>\<^verbatim>\<open>parse_node\<close> and \<^verbatim>\<open>create_selector_map\<close>\<close>

text \<open>
  The element tree. The \<^verbatim>\<open>parent\<close> reference of a node is not stored: the functions
  that read it receive the ancestors, nearest first.
\<close>

record elem_info =
  en_tagName :: "string option"
  en_xpath :: "string option"
  en_highlightIndex :: "int option"
  en_attributes :: "(string \<times> string) list"
  en_isVisible :: bool
  en_isInteractive :: bool
  en_isTopElement :: bool
  en_shadowRoot :: bool

datatype element_node =
    TextElem string bool
  | ElemNode elem_info "element_node list"

definition or_false :: "bool option \<Rightarrow> bool" where
  "or_false b = (case b of None \<Rightarrow> False | Some v \<Rightarrow> v)"

fun parse_node :: "node_data \<Rightarrow> element_node"
  and parse_children :: "node_data option list \<Rightarrow> element_node list"
where
  "parse_node (TextData t v) = TextElem t v"
| "parse_node (NodeData i cs) =
     ElemNode \<lparr> en_tagName = nd_tagName i, en_xpath = nd_xpath i,
                en_highlightIndex = nd_highlightIndex i, en_attributes = nd_attributes i,
                en_isVisible = or_false (nd_isVisible i),
                en_isInteractive = or_false (nd_isInteractive i),
                en_isTopElement = or_false (nd_isTopElement i),
                en_shadowRoot = nd_shadowRoot i \<rparr>
              (parse_children cs)"
| "parse_children [] = []"
| "parse_children (None # cs) = parse_children cs"
| "parse_children (Some c # cs) = parse_node c # parse_children cs"

fun create_selector_map :: "element_node \<Rightarrow> (int \<times> elem_info) list \<Rightarrow> (int \<times> elem_info) list"
  and create_selector_children ::
    "element_node list \<Rightarrow> (int \<times> elem_info) list \<Rightarrow> (int \<times> elem_info) list"
where
  "create_selector_map (TextElem t v) m = m"
| "create_selector_map (ElemNode i cs) m =
     (if str_truthy (en_tagName i) then
        create_selector_children cs
          (case en_highlightIndex i of None \<Rightarrow> m | Some h \<Rightarrow> obj_set h i m)
      else m)"
| "create_selector_children [] m = m"
| "create_selector_children (c # cs) m = create_selector_children cs (create_selector_map c m)"

section \<open>The page script: the text serialization\<close>

definition default_attributes :: "string list" where
  "default_attributes =
     [''id'', ''title'', ''type'', ''name'', ''role'', ''class'', ''tabindex'', ''aria-label'',
      ''placeholder'', ''value'', ''alt'', ''aria-expanded'']"

text \<open>
  \<^verbatim>\<open>collect_text\<close> of \<^verbatim>\<open>get_all_text_till_next_clickable_element\<close>. The flag says whether
  \<^verbatim>\<open>node\<close> is \<^verbatim>\<open>element_node\<close> itself, which is what \<^verbatim>\<open>node != element_node\<close> tests.
  \<^verbatim>\<open>
  function collect_text(node) {
    if (node.tagName && node != element_node && node.highlightIndex != null) {
      return;
    }
    if (!node.tagName && node.text) {
      text_parts.push(node.text);
    } else if (node.tagName) {
      for (let i = 0; i < node.children.length; i++) {
        collect_text(node.children[i]);
      }
    }
  }
  \<close>
\<close>

fun collect_text :: "bool \<Rightarrow> element_node \<Rightarrow> string list"
  and collect_children :: "element_node list \<Rightarrow> string list"
where
  "collect_text is_element_node (TextElem t v) = (if t \<noteq> [] then [t] else [])"
| "collect_text is_element_node (ElemNode i cs) =
     (if str_truthy (en_tagName i) \<and> \<not> is_element_node \<and> en_highlightIndex i \<noteq> None then []
      else if str_truthy (en_tagName i) then collect_children cs
      else [])"
| "collect_children [] = []"
| "collect_children (c # cs) = collect_text False c @ collect_children cs"

text \<open>\<^verbatim>\<open>text_parts.join('\n').trim().replace(/\n+/g, ' ')\<close>\<close>

definition finish_text :: "string list \<Rightarrow> string" where
  "finish_text text_parts = replace_newlines (trim (join [CHR 0x0A] text_parts))"

definition get_all_text_till_next_clickable_element :: "element_node \<Rightarrow> string" where
  "get_all_text_till_next_clickable_element element_node =
     finish_text (collect_text True element_node)"

definition has_parent_with_highlight_index :: "elem_info list \<Rightarrow> bool" where
  "has_parent_with_highlight_index ancestors =
     list_ex (\<lambda>a. en_highlightIndex a \<noteq> None) ancestors"

text \<open>
  \<^verbatim>\<open>node.attributes[key]\<close> reads a plain object: the attribute's own value when the element
  has the attribute, and otherwise what \<^verbatim>\<open>Object.prototype\<close> holds under that name (a
  function for \<^verbatim>\<open>constructor\<close> or \<^verbatim>\<open>toString\<close>), which is truthy and is printed.
  \<open>inherited k\<close> is the text the template literal prints for the property \<open>k\<close> of
  \<^verbatim>\<open>Object.prototype\<close>, in the engine's wording, and \<open>None\<close> for a name it lacks.
\<close>

definition attribute_value ::
  "(string \<Rightarrow> string option) \<Rightarrow> (string \<times> string) list \<Rightarrow> string \<Rightarrow> string option" where
  "attribute_value inherited attrs k =
     (case map_of attrs k of Some v \<Rightarrow> Some v | None \<Rightarrow> inherited k)"

definition attribute_pair ::
  "(string \<Rightarrow> string option) \<Rightarrow> (string \<times> string) list \<Rightarrow> string \<Rightarrow> string" where
  "attribute_pair inherited attrs k =
     (case attribute_value inherited attrs k of
        None \<Rightarrow> []
      | Some v \<Rightarrow> if k \<noteq> [] \<and> v \<noteq> [] then '' '' @ k @ ''='' @ dq @ v @ dq else [])"

definition attributes_str ::
  "(string \<Rightarrow> string option) \<Rightarrow> string list \<Rightarrow> (string \<times> string) list \<Rightarrow> string" where
  "attributes_str inherited includeAttributes attrs =
     replace_newlines (concat (map (attribute_pair inherited attrs) includeAttributes))"

text \<open>
  One pushed element of \<^verbatim>\<open>formatted_text\<close>, before it is formatted: the line of an
  indexed element, with the text parts \<^verbatim>\<open>collect_text\<close> gathered for it, or the bare
  line of a text run.
\<close>

datatype line =
    IndexedLine int "string option" string "string list"
  | BareLine string

definition tag_str :: "string option \<Rightarrow> string" where
  "tag_str t = (case t of None \<Rightarrow> ''null'' | Some s \<Rightarrow> s)"

fun render_line :: "line \<Rightarrow> string" where
  "render_line (IndexedLine h tag attrs parts) =
     ''['' @ str_int h @ '']:<'' @ tag_str tag @ attrs @ ''>'' @ finish_text parts
       @ ''</'' @ tag_str tag @ ''>''"
| "render_line (BareLine t) = ''[]:'' @ t"

text \<open>
  \<^verbatim>\<open>process_node\<close> of \<^verbatim>\<open>clickable_elements_to_string\<close>; a text node is a node whose
  \<^verbatim>\<open>text\<close> is not \<^verbatim>\<open>null\<close>.
\<close>

fun process_node ::
    "(string \<Rightarrow> string option) \<Rightarrow> string list \<Rightarrow> elem_info list \<Rightarrow> element_node \<Rightarrow> line list"
  and process_children ::
    "(string \<Rightarrow> string option) \<Rightarrow> string list \<Rightarrow> elem_info list \<Rightarrow> element_node list
       \<Rightarrow> line list"
where
  "process_node inherited inc ancestors (ElemNode i cs) =
     (case en_highlightIndex i of
        Some h \<Rightarrow> [IndexedLine h (en_tagName i) (attributes_str inherited inc (en_attributes i))
                     (collect_text True (ElemNode i cs))]
      | None \<Rightarrow> [])
     @ process_children inherited inc (i # ancestors) cs"
| "process_node inherited inc ancestors (TextElem t v) =
     (if \<not> has_parent_with_highlight_index ancestors then [BareLine t] else [])"
| "process_children inherited inc ancestors [] = []"
| "process_children inherited inc ancestors (c # cs) =
     process_node inherited inc ancestors c @ process_children inherited inc ancestors cs"

text \<open>\<^verbatim>\<open>if (!includeAttributes) { includeAttributes = [...] }\<close>\<close>

definition include_list :: "string list option \<Rightarrow> string list" where
  "include_list includeAttributes =
     (case includeAttributes of None \<Rightarrow> default_attributes | Some l \<Rightarrow> l)"

definition clickable_elements_to_string ::
  "(string \<Rightarrow> string option) \<Rightarrow> element_node \<Rightarrow> string list option \<Rightarrow> string" where
  "clickable_elements_to_string inherited element_tree includeAttributes =
     join [CHR 0x0A]
       (map render_line
          (process_node inherited (include_list includeAttributes) [] element_tree))"

text \<open>
  \<^verbatim>\<open>get_clickable_elements\<close>: the tree of the page, the element tree, the selector map and
  the text. When the builder returns \<^verbatim>\<open>null\<close> for the body, \<^verbatim>\<open>create_selector_map\<close>
  reads a property of \<^verbatim>\<open>undefined\<close> and throws.
\<close>

definition element_tree_of :: "build_env \<Rightarrow> dom \<Rightarrow> element_node option" where
  "element_tree_of env body = map_option parse_node (fst (build_dom_tree env body))"

definition get_clickable_elements ::
  "build_env \<Rightarrow> (string \<Rightarrow> string option) \<Rightarrow> string list option \<Rightarrow> dom
     \<Rightarrow> string + (string \<times> (int \<times> elem_info) list)" where
  "get_clickable_elements env inherited includeAttributes body =
     (case element_tree_of env body of
        None \<Rightarrow> Inl ''TypeError''
      | Some element_tree \<Rightarrow>
          Inr (clickable_elements_to_string inherited element_tree includeAttributes,
               create_selector_map element_tree []))"

subsection \<open>Reading the snapshot\<close>

text \<open>The highlight indices of a tree, in pre-order.\<close>

fun indices :: "element_node \<Rightarrow> int list"
  and indices_children :: "element_node list \<Rightarrow> int list"
where
  "indices (TextElem t v) = []"
| "indices (ElemNode i cs) =
     (case en_highlightIndex i of None \<Rightarrow> [] | Some h \<Rightarrow> [h]) @ indices_children cs"
| "indices_children [] = []"
| "indices_children (c # cs) = indices c @ indices_children cs"

text \<open>The same list read off the builder's tree, where a child may be \<^verbatim>\<open>null\<close>.\<close>

fun nd_indices :: "node_data \<Rightarrow> int list"
  and nd_indices_children :: "node_data option list \<Rightarrow> int list"
where
  "nd_indices (TextData t v) = []"
| "nd_indices (NodeData i cs) =
     (case nd_highlightIndex i of None \<Rightarrow> [] | Some h \<Rightarrow> [h]) @ nd_indices_children cs"
| "nd_indices_children [] = []"
| "nd_indices_children (None # cs) = nd_indices_children cs"
| "nd_indices_children (Some c # cs) = nd_indices c @ nd_indices_children cs"

text \<open>An element carries an index exactly when its three flags are set, everywhere.\<close>

fun index_iff_qualifies :: "element_node \<Rightarrow> bool"
  and index_iff_qualifies_children :: "element_node list \<Rightarrow> bool"
where
  "index_iff_qualifies (TextElem t v) = True"
| "index_iff_qualifies (ElemNode i cs) =
     (((en_highlightIndex i \<noteq> None) =
        (en_isVisible i \<and> en_isInteractive i \<and> en_isTopElement i))
      \<and> index_iff_qualifies_children cs)"
| "index_iff_qualifies_children [] = True"
| "index_iff_qualifies_children (c # cs) =
     (index_iff_qualifies c \<and> index_iff_qualifies_children cs)"













subsection \<open>Locators, from the document downward\<close>







section \<open>The page script: the overlay container\<close>

text \<open>
  The document as \<^verbatim>\<open>getElementById\<close> sees it: the child nodes of the document node, each
  with its own child nodes (shadow trees and frame documents are not searched).
\<close>

definition container_id :: string where
  "container_id = ''playwright-highlight-container''"

fun has_id :: "string \<Rightarrow> dom \<Rightarrow> bool" where
  "has_id i (Element e shadow frame kids) = (getAttribute e ''id'' = Some i)"
| "has_id i (TextNode t) = False"
| "has_id i OtherNode = False"

text \<open>The first element with the id, in tree order.\<close>

fun getElementById_node :: "string \<Rightarrow> dom \<Rightarrow> dom option"
  and getElementById :: "string \<Rightarrow> dom list \<Rightarrow> dom option"
where
  "getElementById_node i (TextNode t) = None"
| "getElementById_node i OtherNode = None"
| "getElementById_node i (Element e shadow frame kids) =
     (if getAttribute e ''id'' = Some i then Some (Element e shadow frame kids)
      else getElementById i kids)"
| "getElementById i [] = None"
| "getElementById i (n # ns) =
     (case getElementById_node i n of Some found \<Rightarrow> Some found | None \<Rightarrow> getElementById i ns)"

text \<open>
  \<^verbatim>\<open>found.remove()\<close> for the element \<^verbatim>\<open>getElementById\<close> found: the first element with the
  id, in tree order, leaves its parent's child list.
\<close>

fun remove_first_node :: "string \<Rightarrow> dom \<Rightarrow> dom"
  and remove_first :: "string \<Rightarrow> dom list \<Rightarrow> dom list"
where
  "remove_first_node i (TextNode t) = TextNode t"
| "remove_first_node i OtherNode = OtherNode"
| "remove_first_node i (Element e shadow frame kids) = Element e shadow frame (remove_first i kids)"
| "remove_first i [] = []"
| "remove_first i (n # ns) =
     (if has_id i n then ns
      else if getElementById_node i n \<noteq> None then remove_first_node i n # ns
      else n # remove_first i ns)"

text \<open>
  \<^verbatim>\<open>
  function remove_highlight() {
    let highlight = document.getElementById('playwright-highlight-container');
    if (highlight) {
      highlight.remove();
    }
  }
  \<close>
\<close>

definition remove_highlight :: "dom list \<Rightarrow> dom list" where
  "remove_highlight document =
     (let highlight = getElementById container_id document
      in if highlight \<noteq> None then remove_first container_id document else document)"

text \<open>The number of elements that carry the id.\<close>

fun count_id_node :: "string \<Rightarrow> dom \<Rightarrow> nat"
  and count_id :: "string \<Rightarrow> dom list \<Rightarrow> nat"
where
  "count_id_node i (TextNode t) = 0"
| "count_id_node i OtherNode = 0"
| "count_id_node i (Element e shadow frame kids) =
     (if getAttribute e ''id'' = Some i then 1 else 0) + count_id i kids"
| "count_id i [] = 0"
| "count_id i (n # ns) = count_id_node i n + count_id i ns"

text \<open>
  The container \<^verbatim>\<open>highlightElement\<close> creates when \<^verbatim>\<open>getElementById\<close> finds none, appended
  to \<^verbatim>\<open>document.documentElement\<close>, the first element among the document's children.
\<close>

definition container :: dom where
  "container = Element (plain_element ''DIV'' [(''id'', container_id)]) [] [] []"

fun append_to_documentElement :: "dom \<Rightarrow> dom list \<Rightarrow> dom list" where
  "append_to_documentElement c [] = []"
| "append_to_documentElement c (Element e shadow frame kids # ns) =
     Element e shadow frame (kids @ [c]) # ns"
| "append_to_documentElement c (n # ns) = n # append_to_documentElement c ns"

definition ensure_container :: "dom list \<Rightarrow> dom list" where
  "ensure_container document =
     (if getElementById container_id document = None
      then append_to_documentElement container document else document)"

section \<open>Reading and example documents\<close>

text \<open>
  The builder took the element tree \<open>ts\<close> from state \<open>st\<close> to state \<open>st'\<close>: the
  indices of \<open>ts\<close>, in pre-order, are the values the counter went through, and each
  element of \<open>ts\<close> carries an index exactly when it qualifies.
\<close>

definition numbered :: "builder \<Rightarrow> element_node list \<Rightarrow> builder \<Rightarrow> bool" where
  "numbered st ts st' =
     (highlightIndex st \<le> highlightIndex st' \<and>
      indices_children ts = [highlightIndex st .. highlightIndex st' - 1] \<and>
      index_iff_qualifies_children ts)"


definition env0 :: build_env where
  "env0 = \<lparr> doHighlightElements = True, innerHeight = 600 \<rparr>"

definition visible_text :: "string \<Rightarrow> dom" where
  "visible_text s =
     TextNode \<lparr> tn_textContent = s, tn_width = 40, tn_height = 12, tn_top = 10,
                tn_parent_checkVisibility = True \<rparr>"


text \<open>
  A body with a link, a text run, and a division that holds a button (with a nested
  link) and an input:
  \<^verbatim>\<open><body><a>Home</a>intro<div>lead<button>Go<a>more</a>!</button><input></div></body>\<close>
\<close>

definition sample_body :: dom where
  "sample_body =
     Element (plain_element ''BODY'' []) [] []
       [Element (plain_element ''A'' [(''id'', ''home'')]) [] [] [visible_text ''Home''],
        visible_text ''intro'',
        Element (plain_element ''DIV'' []) [] []
          [visible_text ''lead'',
           Element (plain_element ''BUTTON'' [(''type'', ''submit'')]) [] []
             [visible_text ''Go'',
              Element (plain_element ''A'' []) [] [] [visible_text ''more''],
              visible_text ''!''],
           Element (plain_element ''INPUT'' [(''name'', ''q'')]) [] [] []]]"

text \<open>The element tree of that body, as the snapshot builder and \<^verbatim>\<open>parse_node\<close> produce it.\<close>

definition snapshot_elem ::
  "string \<Rightarrow> string \<Rightarrow> int option \<Rightarrow> (string \<times> string) list \<Rightarrow> bool \<Rightarrow> elem_info" where
  "snapshot_elem tag xp h attrs interactive =
     \<lparr> en_tagName = Some tag, en_xpath = Some xp, en_highlightIndex = h,
       en_attributes = attrs, en_isVisible = True, en_isInteractive = interactive,
       en_isTopElement = True, en_shadowRoot = False \<rparr>"

definition sample_tree :: element_node where
  "sample_tree =
     ElemNode (snapshot_elem ''body'' ''html/body'' None [] False)
       [ElemNode (snapshot_elem ''a'' ''html/body/a'' (Some 0) [(''id'', ''home'')] True)
          [TextElem ''Home'' True],
        TextElem ''intro'' True,
        ElemNode (snapshot_elem ''div'' ''html/body/div'' None [] False)
          [TextElem ''lead'' True,
           ElemNode (snapshot_elem ''button'' ''html/body/div/button'' (Some 1)
                       [(''type'', ''submit'')] True)
             [TextElem ''Go'' True,
              ElemNode (snapshot_elem ''a'' ''html/body/div/button/a'' (Some 2) [] True)
                [TextElem ''more'' True],
              TextElem ''!'' True],
           ElemNode (snapshot_elem ''input'' ''html/body/div/input'' (Some 3)
                       [(''name'', ''q'')] True) []]]"








text \<open>A document whose body holds one link, before any overlay is drawn.\<close>

definition page_document :: "dom list" where
  "page_document =
     [OtherNode,
      Element (plain_element ''HTML'' []) [] []
        [Element (plain_element ''HEAD'' []) [] [] [],
         Element (plain_element ''BODY'' []) [] []
           [Element (plain_element ''A'' [(''id'', ''home'')]) [] [] []]]]"

section \<open>Properties of the dispatcher\<close>

lemmas dispatch_defs =
  execute_def effect_def resolve_index_def do_click_def do_input_text_def do_open_url_def
  do_scroll_to_def do_extract_content_def do_get_dropdown_options_def
  do_select_dropdown_option_def do_screenshot_extract_element_def get_element_def
  str_truthy_def entry_truthy_def sm_get_def and_then_def ok_def raise_def call_def
  on_page_def wrap_result_def failure_def open_url_def set_current_page_def ensure_page_def
  inject_dom_builder_def set_selector_map_def request_def

lemma str_int_7: "str_int 7 = ''7''"
  by code_simp

lemma str_int_0: "str_int 0 = ''0''"
  by code_simp

subsection \<open>Index resolution\<close>

text \<open>
  Claim C2, as amended. When the request carries an index, the context holds a selector
  map that is not empty, and neither \<^verbatim>\<open>str(index)\<close> nor \<^verbatim>\<open>index\<close> is a key of it, then
  \<^verbatim>\<open>execute\<close> returns \<^verbatim>\<open>{"success": False, "error": "Element does not exist"}\<close>, whatever
  the action is, and leaves the session as it was. The response is a value: nothing is
  raised to the caller.
\<close>

theorem execute_index_absent:
  assumes "p_action p = Some a" and "p_index p = Some i"
    and "ctx_selector_map s = Some m" and "m \<noteq> []"
    and "map_of m (KStr (str_int i)) = None" and "map_of m (KInt i) = None"
  shows "execute d p s = (failure ''Element does not exist'', s)"
  using assms
  by (simp add: execute_def effect_def resolve_index_def sm_get_def entry_truthy_def
      str_truthy_def raise_def)

theorem execute_index_absent_witness:
  "execute demo_driver (request ''click'' (Some 7) None) page_session
     = (PDict [(''success'', PBool False), (''error'', PStr ''Element does not exist'')],
        page_session)"
  using execute_index_absent [of "request ''click'' (Some 7) None" "''click''" 7 page_session
      "[(KStr ''0'', [(''tagName'', ''a''), (''xpath'', ''html/body/a'')])]" demo_driver]
  by (simp add: page_session_def failure_def str_int_7 request_def)

text \<open>
  The claim as stated fails before the first snapshot, when the context holds no selector
  map and so no index is in it: the guard \<^verbatim>\<open>context.get("selector_map")\<close> is falsy, the
  lookup is skipped, and \<^verbatim>\<open>click\<close> ends in the bare \<^verbatim>\<open>{"success": False}\<close>.
\<close>

theorem index_absent_counterexample:
  "ctx_selector_map (page_session \<lparr> ctx_selector_map := None \<rparr>) = None \<and>
   fst (execute demo_driver (request ''click'' (Some 0) None)
          (page_session \<lparr> ctx_selector_map := None \<rparr>))
     = PDict [(''success'', PBool False)] \<and>
   fst (execute demo_driver (request ''click'' (Some 0) None)
          (page_session \<lparr> ctx_selector_map := None \<rparr>))
     \<noteq> PDict [(''success'', PBool False), (''error'', PStr ''Element does not exist'')]"
  by (simp add: dispatch_defs page_session_def)

subsection \<open>Navigation\<close>

lemma open_url_Inr:
  assumes "open_url d u s = (Inr pg, s')"
  shows "\<exists>w1 w2 w3. drv_new_page d (world s) = (Inr pg, w1) \<and>
     drv_goto d pg u w1 = (Inr (), w2) \<and> drv_wait_for_load_state d pg w2 = (Inr (), w3) \<and>
     current_page s' = Some pg \<and> ctx_selector_map s' = ctx_selector_map s \<and>
     has_browser_context s' = has_browser_context s"
  using assms
  by (auto simp: open_url_def and_then_def call_def ok_def raise_def set_current_page_def
      split: if_splits prod.splits sum.splits)

lemma open_url_Inl:
  assumes "open_url d u s = (Inl e, s')"
  shows "current_page s' = current_page s \<and> ctx_selector_map s' = ctx_selector_map s"
  using assms
  by (auto simp: open_url_def and_then_def call_def ok_def raise_def set_current_page_def
      split: if_splits prod.splits sum.splits)

lemma succeeded_failure [simp]: "\<not> succeeded (failure e)"
  by (simp add: succeeded_def failure_def)

text \<open>
  Claim C4, as amended. Every successful \<^verbatim>\<open>open_url\<close> command replaces the session's
  current page by the page the driver has just created and navigated, and leaves the
  selector map of the context exactly as it was: the request carries a text \<open>u\<close>, the
  driver returned a new page \<open>pg\<close>, \<^verbatim>\<open>goto\<close> of \<open>u\<close> on \<open>pg\<close> returned, the wait for the
  load state of \<open>pg\<close> returned after it, \<open>pg\<close> is the current page afterwards, and the
  selector map is the one from before.
\<close>

theorem execute_open_url_success:
  assumes "p_action p = Some ''open_url''" and "execute d p s = (r, s')" and "succeeded r"
  shows "\<exists>u pg w1 w2 w3. p_text p = Some u \<and> drv_new_page d (world s) = (Inr pg, w1) \<and>
           drv_goto d pg u w1 = (Inr (), w2) \<and>
           drv_wait_for_load_state d pg w2 = (Inr (), w3) \<and>
           current_page s' = Some pg \<and> ctx_selector_map s' = ctx_selector_map s"
proof -
  from assms obtain x where rx: "resolve_index p (ctx_selector_map s) = Inr x"
    by (cases "resolve_index p (ctx_selector_map s)")
       (auto simp: execute_def effect_def raise_def)
  from assms rx obtain u where u: "p_text p = Some u"
    by (cases "p_text p") (auto simp: execute_def effect_def do_open_url_def raise_def)
  from assms rx u obtain pg s1 where o: "open_url d u s = (Inr pg, s1)"
    by (cases "open_url d u s"; cases "fst (open_url d u s)")
       (auto simp: execute_def effect_def do_open_url_def and_then_def)
  from assms rx u o have "world_update (\<lambda>_. snd (drv_title d pg (world s1))) s1 = s'"
    by (auto simp: execute_def effect_def do_open_url_def and_then_def call_def ok_def
        split: prod.splits sum.splits)
  then have keep: "current_page s' = current_page s1" "ctx_selector_map s' = ctx_selector_map s1"
    by auto
  from open_url_Inr [OF o] obtain w1 w2 w3 where
    nav: "drv_new_page d (world s) = (Inr pg, w1)" "drv_goto d pg u w1 = (Inr (), w2)"
      "drv_wait_for_load_state d pg w2 = (Inr (), w3)"
      "current_page s1 = Some pg" "ctx_selector_map s1 = ctx_selector_map s"
    by blast
  show ?thesis
    by (rule exI [of _ u], rule exI [of _ pg], rule exI [of _ w1], rule exI [of _ w2],
        rule exI [of _ w3])
       (simp add: u nav keep)
qed

theorem execute_open_url_success_witness:
  "succeeded (fst (execute demo_driver (request ''open_url'' None (Some ''https://example.test/''))
                     page_session)) \<and>
   current_page (snd (execute demo_driver
                        (request ''open_url'' None (Some ''https://example.test/'')) page_session))
     = Some 1 \<and>
   ctx_selector_map (snd (execute demo_driver
                            (request ''open_url'' None (Some ''https://example.test/'')) page_session))
     = ctx_selector_map page_session"
proof -
  let ?p = "request ''open_url'' None (Some ''https://example.test/'')"
  have s: "succeeded (fst (execute demo_driver ?p page_session))"
    by (simp add: dispatch_defs demo_driver_def page_session_def succeeded_def dict_merge_def)
  have a: "p_action ?p = Some ''open_url''"
    by (simp add: request_def)
  have "execute demo_driver ?p page_session
      = (fst (execute demo_driver ?p page_session), snd (execute demo_driver ?p page_session))"
    by simp
  from execute_open_url_success [OF a this s]
  show ?thesis using s
    by (auto simp: demo_driver_def page_session_def)
qed

text \<open>
  The claim as stated fails: \<^verbatim>\<open>open_url\<close> receives the context and never touches it, so
  after a successful navigation index 0 of the snapshot taken before still resolves.
\<close>

theorem open_url_keeps_selector_map_counterexample:
  "succeeded (fst (execute demo_driver (request ''open_url'' None (Some ''https://example.test/''))
                     page_session)) \<and>
   ctx_selector_map (snd (execute demo_driver
                            (request ''open_url'' None (Some ''https://example.test/'')) page_session))
     = Some [(KStr ''0'', [(''tagName'', ''a''), (''xpath'', ''html/body/a'')])] \<and>
   resolve_index (request ''click'' (Some 0) None)
     (ctx_selector_map (snd (execute demo_driver
                               (request ''open_url'' None (Some ''https://example.test/''))
                               page_session)))
     = Inr (Some ''html/body/a'')"
  by (simp add: dispatch_defs demo_driver_def page_session_def succeeded_def dict_merge_def
      str_int_0)

subsection \<open>Commands before the first page\<close>

text \<open>
  Claim C6, at the failing input. With no page open, \<^verbatim>\<open>screenshot_extract_element\<close> goes
  through \<^verbatim>\<open>_ensure_page\<close> and reports that no page is open; \<^verbatim>\<open>click\<close> does not, and
  ends in the bare \<^verbatim>\<open>{"success": False}\<close>; \<^verbatim>\<open>extract_content\<close> reports the
  AttributeError of a method call on \<^verbatim>\<open>None\<close>.
\<close>

theorem execute_no_page:
  "fst (execute d (request ''screenshot_extract_element'' None None)
         \<lparr> current_page = None, has_browser_context = b, ctx_selector_map = None, world = w \<rparr>)
     = failure ''No page open; call open_url first.'' \<and>
   fst (execute d (request ''click'' (Some 0) None)
         \<lparr> current_page = None, has_browser_context = b, ctx_selector_map = None, world = w \<rparr>)
     = PDict [(''success'', PBool False)] \<and>
   fst (execute d (request ''extract_content'' None None)
         \<lparr> current_page = None, has_browser_context = b, ctx_selector_map = None, world = w \<rparr>)
     = failure (attribute_error ''evaluate'')"
  by (simp add: dispatch_defs)

text \<open>
  The other half of the claim holds: only \<^verbatim>\<open>open_url\<close> changes the current page, so no
  other command leaves the state without a page.
\<close>

lemma keeps_page_raise [simp]: "keeps_page (raise e)"
  by (simp add: keeps_page_def raise_def)

lemma keeps_page_ok [simp]: "keeps_page (ok a)"
  by (simp add: keeps_page_def ok_def)

lemma keeps_page_call [simp]: "keeps_page (call f)"
  by (simp add: keeps_page_def call_def split: prod.splits)

lemma keeps_page_and_then [simp]:
  assumes "keeps_page m" and "\<And>a. keeps_page (f a)"
  shows "keeps_page (and_then m f)"
  unfolding keeps_page_def and_then_def
proof
  fix s
  obtain r s1 where m: "m s = (r, s1)" by (cases "m s")
  with assms(1) have p: "current_page s1 = current_page s"
    by (auto simp: keeps_page_def dest: spec [of _ s])
  show "current_page (snd (case m s of (Inl e, s') \<Rightarrow> (Inl e, s') | (Inr a, s') \<Rightarrow> f a s'))
      = current_page s"
  proof (cases r)
    case (Inl e)
    with m p show ?thesis by simp
  next
    case (Inr a)
    from assms(2) [of a] have "current_page (snd (f a s1)) = current_page s1"
      by (simp add: keeps_page_def)
    with Inr m p show ?thesis by simp
  qed
qed

lemma keeps_page_on_page [simp]:
  assumes "\<And>pg'. keeps_page (f pg')"
  shows "keeps_page (on_page pg name f)"
  using assms by (cases pg) (simp_all add: on_page_def)

lemma keeps_page_if [simp]:
  "keeps_page m \<Longrightarrow> keeps_page n \<Longrightarrow> keeps_page (if c then m else n)"
  by simp

lemma keeps_page_get_element [simp]: "keeps_page (get_element d pg xp)"
  by (simp add: get_element_def)

lemma keeps_page_ensure_page [simp]: "keeps_page ensure_page"
  by (simp add: keeps_page_def ensure_page_def raise_def ok_def split: option.splits)

lemma keeps_page_set_selector_map [simp]: "keeps_page (set_selector_map m)"
  by (simp add: keeps_page_def set_selector_map_def)

lemma keeps_page_lambda_ok [simp]: "keeps_page (\<lambda>s. ok (g s) s)"
  by (simp add: keeps_page_def ok_def)

lemma keeps_page_inject [simp]: "keeps_page (inject_dom_builder d)"
  by (simp add: inject_dom_builder_def)

lemma keeps_page_branches:
  "keeps_page (do_input_text d p pg xp)"
  "keeps_page (do_click d p a pg xp)"
  "keeps_page (do_scroll_to d p pg xp)"
  "keeps_page (do_extract_content d pg)"
  "keeps_page (do_get_dropdown_options d p pg xp)"
  "keeps_page (do_select_dropdown_option d p pg xp)"
  "keeps_page (do_screenshot_extract_element d pg)"
  by (simp_all add: do_input_text_def do_click_def do_scroll_to_def do_extract_content_def
      do_get_dropdown_options_def do_select_dropdown_option_def
      do_screenshot_extract_element_def split: option.splits)

lemma effect_keeps_page:
  assumes "p_action p \<noteq> Some ''open_url''"
  shows "current_page (snd (effect d p s)) = current_page s"
proof (cases "p_action p")
  case None
  then show ?thesis by (simp add: effect_def raise_def)
next
  case (Some a)
  with assms have a: "a \<noteq> ''open_url''" by simp
  show ?thesis
  proof (cases "resolve_index p (ctx_selector_map s)")
    case (Inl e)
    with Some show ?thesis by (simp add: effect_def raise_def)
  next
    case (Inr xp)
    have "keeps_page
      (if a = ''input_text'' then do_input_text d p (current_page s) xp
       else if a \<in> set [''click'', ''right_click'', ''double_click'']
         then do_click d p a (current_page s) xp
       else if a = ''scroll_to'' then do_scroll_to d p (current_page s) xp
       else if a = ''extract_content'' then do_extract_content d (current_page s)
       else if a = ''get_dropdown_options''
         then do_get_dropdown_options d p (current_page s) xp
       else if a = ''select_dropdown_option''
         then do_select_dropdown_option d p (current_page s) xp
       else if a = ''screenshot_extract_element''
         then do_screenshot_extract_element d (current_page s)
       else raise (invalid_action a))"
      by (intro keeps_page_if keeps_page_branches keeps_page_raise)
    then show ?thesis
      using Some Inr a by (simp add: effect_def keeps_page_def Let_def)
  qed
qed

lemma execute_keeps_page:
  assumes "p_action p \<noteq> Some ''open_url''"
  shows "current_page (snd (execute d p s)) = current_page s"
proof -
  obtain r s1 where e: "effect d p s = (r, s1)"
    by (cases "effect d p s")
  with effect_keeps_page [OF assms, of d s] have "current_page s1 = current_page s"
    by simp
  with e show ?thesis
    by (cases r) (simp_all add: execute_def)
qed

subsection \<open>Unknown actions\<close>

text \<open>
  Claim C9, as amended. For a request whose action is none of the ten command names, the
  response is \<^verbatim>\<open>{"success": False, "error": e}\<close>, where \<open>e\<close> is the message
  \<^verbatim>\<open>Invalid action: "<action>" is not recognized.\<close> with the action's name in it; only
  when the request also carries an index that the selector map does not resolve is \<open>e\<close>
  the message of that earlier check. The session is left as it was.
\<close>

theorem execute_invalid_action:
  assumes "p_action p = Some a" and "a \<notin> set actions"
  shows "execute d p s =
    (failure (case resolve_index p (ctx_selector_map s) of
                Inl e \<Rightarrow> e | Inr x \<Rightarrow> invalid_action a), s)"
  using assms
  by (auto simp: execute_def effect_def actions_def raise_def split: sum.splits)

theorem execute_invalid_action_witness:
  "fst (execute demo_driver (request ''fly'' None None) fresh_session)
     = PDict [(''success'', PBool False),
              (''error'', PStr (''Invalid action: '' @ [CHR 0x22] @ ''fly'' @ [CHR 0x22]
                                @ '' is not recognized.''))]"
  using execute_invalid_action [of "request ''fly'' None None" "''fly''" demo_driver fresh_session]
  by (simp add: actions_def resolve_index_def failure_def invalid_action_def dq_def request_def)

theorem invalid_action_counterexample:
  "''fly'' \<notin> set actions \<and>
   fst (execute demo_driver (request ''fly'' None None) fresh_session)
     \<noteq> PDict [(''success'', PBool False), (''error'', PStr ''Invalid action'')]"
  by (simp add: actions_def execute_def effect_def resolve_index_def raise_def failure_def
      invalid_action_def request_def)

subsection \<open>Falsy results\<close>

text \<open>
  Claim C10. Whenever the effect step of a command returns without raising and its result
  is falsy, \<^verbatim>\<open>execute\<close> returns the bare dictionary \<^verbatim>\<open>{"success": False}\<close>: no
  \<^verbatim>\<open>error\<close> field, no payload. So it is when \<^verbatim>\<open>get_element\<close> returns \<^verbatim>\<open>None\<close> for a
  click or an input (no locator, or a locator that matches no element), and when
  \<^verbatim>\<open>get_dropdown_options\<close> finds no select and returns \<^verbatim>\<open>null\<close>: the two responses are
  the same value.
\<close>

theorem execute_falsy_result:
  "(effect d p s = (Inr result, s') \<longrightarrow> \<not> truthy result \<longrightarrow>
      execute d p s = (PDict [(''success'', PBool False)], s')) \<and>
   (p_action p = Some a \<longrightarrow>
    a \<in> set [''click'', ''right_click'', ''double_click'', ''input_text''] \<longrightarrow>
    p_index p \<noteq> None \<longrightarrow> (a = ''input_text'' \<longrightarrow> p_text p \<noteq> None) \<longrightarrow>
    resolve_index p (ctx_selector_map s) = Inr xp \<longrightarrow>
    get_element d (current_page s) xp s = (Inr None, s') \<longrightarrow>
      execute d p s = (PDict [(''success'', PBool False)], s')) \<and>
   (p_action p = Some ''get_dropdown_options'' \<longrightarrow> p_index p \<noteq> None \<longrightarrow>
    current_page s = Some pg \<longrightarrow>
    resolve_index p (ctx_selector_map s) = Inr xp \<longrightarrow>
    drv_dropdown_options d pg xp (world s) = (Inr PNone, w) \<longrightarrow>
      execute d p s = (PDict [(''success'', PBool False)], s\<lparr>world := w\<rparr>))"
proof (intro conjI impI)
  assume "effect d p s = (Inr result, s')" and "\<not> truthy result"
  then show "execute d p s = (PDict [(''success'', PBool False)], s')"
    by (simp add: execute_def wrap_result_def)
next
  assume a: "p_action p = Some a"
    "a \<in> set [''click'', ''right_click'', ''double_click'', ''input_text'']"
    and i: "p_index p \<noteq> None" and t: "a = ''input_text'' \<longrightarrow> p_text p \<noteq> None"
    and r: "resolve_index p (ctx_selector_map s) = Inr xp"
    and g: "get_element d (current_page s) xp s = (Inr None, s')"
  from a i t r g have "effect d p s = (Inr (PBool False), s')"
    by (auto simp: effect_def do_click_def do_input_text_def and_then_def ok_def)
  then show "execute d p s = (PDict [(''success'', PBool False)], s')"
    by (simp add: execute_def wrap_result_def)
next
  assume "p_action p = Some ''get_dropdown_options''" and "p_index p \<noteq> None"
    and "current_page s = Some pg"
    and "resolve_index p (ctx_selector_map s) = Inr xp"
    and "drv_dropdown_options d pg xp (world s) = (Inr PNone, w)"
  then show "execute d p s = (PDict [(''success'', PBool False)], s\<lparr>world := w\<rparr>)"
    by (auto simp: execute_def effect_def do_get_dropdown_options_def on_page_def call_def
        wrap_result_def)
qed

theorem execute_falsy_result_witness:
  "get_element demo_driver (current_page stale_session) (Some ''html/body/p'') stale_session
     = (Inr None, stale_session) \<and>
   execute demo_driver (request ''click'' (Some 0) None) stale_session
     = (PDict [(''success'', PBool False)], stale_session) \<and>
   drv_dropdown_options demo_driver 0 (Some ''html/body/a'') 1 = (Inr PNone, 1) \<and>
   execute demo_driver (request ''get_dropdown_options'' (Some 0) None) page_session
     = (PDict [(''success'', PBool False)], page_session)"
proof -
  have g: "get_element demo_driver (current_page stale_session) (Some ''html/body/p'')
      stale_session = (Inr None, stale_session)"
    by (simp add: dispatch_defs demo_driver_def stale_session_def page_session_def)
  have r: "resolve_index (request ''click'' (Some 0) None) (ctx_selector_map stale_session)
      = Inr (Some ''html/body/p'')"
    by (simp add: dispatch_defs stale_session_def page_session_def str_int_0)
  have r': "resolve_index (request ''get_dropdown_options'' (Some 0) None)
      (ctx_selector_map page_session) = Inr (Some ''html/body/a'')"
    by (simp add: dispatch_defs page_session_def str_int_0)
  have o: "drv_dropdown_options demo_driver 0 (Some ''html/body/a'') 1 = (Inr PNone, 1)"
    by (simp add: demo_driver_def)
  have w: "page_session\<lparr>world := 1\<rparr> = page_session"
    by (simp add: page_session_def)
  from execute_falsy_result [where d = demo_driver and p = "request ''click'' (Some 0) None"
      and s = stale_session and s' = stale_session and a = "''click''"
      and xp = "Some ''html/body/p''"] g r
  have c: "execute demo_driver (request ''click'' (Some 0) None) stale_session
      = (PDict [(''success'', PBool False)], stale_session)"
    by (simp add: request_def)
  from execute_falsy_result [where d = demo_driver
      and p = "request ''get_dropdown_options'' (Some 0) None"
      and s = page_session and pg = 0 and xp = "Some ''html/body/a''" and w = 1] r' o w
  have "execute demo_driver (request ''get_dropdown_options'' (Some 0) None) page_session
      = (PDict [(''success'', PBool False)], page_session)"
    by (simp add: request_def page_session_def)
  with g c o show ?thesis
    by simp
qed

section \<open>Evaluating the example documents\<close>

lemma lower_facts:
  "toLowerCase ''BODY'' = ''body''" "toLowerCase ''DIV'' = ''div''" "toLowerCase ''A'' = ''a''"
  "toLowerCase ''BUTTON'' = ''button''" "toLowerCase ''INPUT'' = ''input''"
  "toLowerCase ''HTML'' = ''html''" "toLowerCase ''HEAD'' = ''head''"
  "toLowerCase ''SPAN'' = ''span''" "toLowerCase ''P'' = ''p''"
  "toLowerCase ''IFRAME'' = ''iframe''"
  by code_simp+

lemma str_nat_2: "str_nat (Suc (Suc 0)) = ''2''"
  by code_simp

lemmas classifier_eval =
  isInteractiveElement_def hasInteractiveRole_def hasAriaProps_def hasClickHandler_def
  hasClickListeners_def isDraggable_def getAttribute_def hasAttribute_def plain_element_def
  has_role_def getEventListeners_def listener_count_def lower_facts
  interactiveElements_def interactiveRoles_def

lemmas build_eval =
  build_dom_tree_def element_tree_of_def assign_index_def isElementAccepted_def
  leafElementDenyList_def isElementVisible_def isTopElement_def isTextNodeVisible_def
  tag_data_def getXPathTree_def xpath_segment_def same_tag_before_def body_location_def
  html_location_def body_prev_def new_builder_def highlightElement_def colors_def env0_def
  visible_text_def trim_def is_space_def or_false_def Let_def str_nat_2 own_attributes_def

lemma sample_tree_eval: "element_tree_of env0 sample_body = Some sample_tree"
  by (simp add: classifier_eval build_eval sample_body_def sample_tree_def snapshot_elem_def)

lemma sample_indices: "indices sample_tree = [0, 1, 2, 3]"
  by (simp add: sample_tree_def snapshot_elem_def)



section \<open>Properties of the classifier\<close>

lemmas classifier_defs =
  isInteractiveElement_def hasInteractiveRole_def hasAriaProps_def hasClickHandler_def
  hasClickListeners_def isDraggable_def getAttribute_def hasAttribute_def plain_element_def
  has_role_def getEventListeners_def listener_count_def toLowerCase_def lower_char_def
  interactiveElements_def

text \<open>
  Claim C7, as amended. An element whose only interactivity signal can be its
  \<^verbatim>\<open>tabindex\<close> attribute (its tag and roles are not in the allow-lists, it has no
  \<^verbatim>\<open>data-action\<close> of a dropdown, no ARIA state attribute, no click handler or listener,
  and is not draggable) is classified interactive if and only if the attribute is present
  and its text is not exactly \<^verbatim>\<open>-1\<close>.
\<close>

theorem tabindex_only_signal:
  assumes "toLowerCase (el_tagName e) \<notin> set interactiveElements"
    and "\<not> has_role (getAttribute e ''role'')"
    and "\<not> has_role (getAttribute e ''aria-role'')"
    and "getAttribute e ''data-action'' \<noteq> Some ''a-dropdown-select''"
    and "getAttribute e ''data-action'' \<noteq> Some ''a-dropdown-button''"
    and "\<not> hasAriaProps e" and "\<not> hasClickHandler e" and "\<not> hasClickListeners e"
    and "\<not> isDraggable e"
  shows "isInteractiveElement e \<longleftrightarrow>
           (\<exists>v. getAttribute e ''tabindex'' = Some v \<and> v \<noteq> ''-1'')"
  using assms by (auto simp: isInteractiveElement_def hasInteractiveRole_def Let_def)

theorem tabindex_only_signal_witness:
  "isInteractiveElement (plain_element ''DIV'' [(''tabindex'', ''0'')]) \<and>
   \<not> isInteractiveElement (plain_element ''DIV'' [(''tabindex'', ''-1'')])"
  using tabindex_only_signal [of "plain_element ''DIV'' [(''tabindex'', ''0'')]"]
    tabindex_only_signal [of "plain_element ''DIV'' [(''tabindex'', ''-1'')]"]
  by (simp add: classifier_defs)

text \<open>
  The claim as stated fails at the tab index \<open>-2\<close>: the script compares the attribute's
  text with \<^verbatim>\<open>'-1'\<close> and reads no number, so this element, which has no other signal,
  is interactive.
\<close>

theorem negative_tabindex_counterexample:
  "str_int (- 2) = ''-2'' \<and>
   getAttribute (plain_element ''DIV'' [(''tabindex'', ''-2'')]) ''tabindex'' = Some ''-2'' \<and>
   \<not> hasAriaProps (plain_element ''DIV'' [(''tabindex'', ''-2'')]) \<and>
   \<not> hasClickHandler (plain_element ''DIV'' [(''tabindex'', ''-2'')]) \<and>
   \<not> hasClickListeners (plain_element ''DIV'' [(''tabindex'', ''-2'')]) \<and>
   \<not> isDraggable (plain_element ''DIV'' [(''tabindex'', ''-2'')]) \<and>
   isInteractiveElement (plain_element ''DIV'' [(''tabindex'', ''-2'')])"
proof -
  have "str_int (- 2) = ''-2''"
    by code_simp
  then show ?thesis
    by (simp add: classifier_defs)
qed

section \<open>Properties of the overlay container\<close>

lemma has_id_found: "has_id i n \<Longrightarrow> getElementById_node i n \<noteq> None"
  by (cases n) auto

lemma remove_first_absent:
  "getElementById_node i n = None \<Longrightarrow> remove_first_node i n = n"
  "getElementById i ns = None \<Longrightarrow> remove_first i ns = ns"
proof (induction i n and i ns rule: remove_first_node_remove_first.induct)
  case (5 i n ns)
  then show ?case
    by (auto split: option.splits dest: has_id_found)
qed (auto split: if_splits)

lemma count_id_zero:
  "(count_id_node i n = 0) = (getElementById_node i n = None)"
  "(count_id i ns = 0) = (getElementById i ns = None)"
  by (induction i n and i ns rule: count_id_node_count_id.induct) (auto split: option.splits)

lemma count_id_remove_first:
  "getElementById_node i n \<noteq> None \<Longrightarrow> \<not> has_id i n
     \<Longrightarrow> count_id_node i (remove_first_node i n) < count_id_node i n"
  "getElementById i ns \<noteq> None \<Longrightarrow> count_id i (remove_first i ns) < count_id i ns"
proof (induction i n and i ns rule: remove_first_node_remove_first.induct)
  case (5 i n ns)
  show ?case
  proof (cases "has_id i n")
    case True
    then have "count_id_node i n > 0"
      by (cases n) auto
    with True show ?thesis by simp
  next
    case False
    show ?thesis
    proof (cases "getElementById_node i n")
      case None
      with False 5 show ?thesis by (auto split: option.splits)
    next
      case (Some a)
      with False 5 show ?thesis by auto
    qed
  qed
qed (auto split: if_splits)

text \<open>
  Claim C8. In a document with no overlay container, \<^verbatim>\<open>remove_highlight\<close> changes
  nothing. In a document with at most one element of the container's id (the script
  creates the container only when \<^verbatim>\<open>getElementById\<close> finds none), one call leaves no
  container behind, and a second call returns the document of the first. The function is
  total: no call raises.
\<close>

theorem remove_highlight_idempotent:
  "(getElementById container_id doc = None \<longrightarrow> remove_highlight doc = doc) \<and>
   (count_id container_id doc \<le> 1 \<longrightarrow>
      getElementById container_id (remove_highlight doc) = None \<and>
      remove_highlight (remove_highlight doc) = remove_highlight doc)"
proof (intro conjI impI)
  show "remove_highlight doc = doc" if "getElementById container_id doc = None"
    using that by (simp add: remove_highlight_def)
next
  assume c: "count_id container_id doc \<le> 1"
  show gone: "getElementById container_id (remove_highlight doc) = None"
  proof (cases "getElementById container_id doc")
    case None
    then show ?thesis by (simp add: remove_highlight_def)
  next
    case (Some a)
    then have "count_id container_id (remove_first container_id doc) < count_id container_id doc"
      by (simp add: count_id_remove_first)
    with c have "count_id container_id (remove_first container_id doc) = 0"
      by simp
    then show ?thesis
      using Some by (simp add: remove_highlight_def count_id_zero)
  qed
  show "remove_highlight (remove_highlight doc) = remove_highlight doc"
    using gone by (simp add: remove_highlight_def [of "remove_highlight doc"])
qed

theorem remove_highlight_idempotent_witness:
  "getElementById container_id page_document = None \<and>
   remove_highlight page_document = page_document \<and>
   getElementById container_id (ensure_container page_document) = Some container \<and>
   count_id container_id (ensure_container page_document) \<le> 1 \<and>
   remove_highlight (ensure_container page_document) = page_document \<and>
   remove_highlight (remove_highlight (ensure_container page_document))
     = remove_highlight (ensure_container page_document)"
proof -
  have a: "getElementById container_id page_document = None"
    by code_simp
  have b: "count_id container_id (ensure_container page_document) \<le> 1"
    by code_simp
  have c: "getElementById container_id (ensure_container page_document) = Some container"
    by code_simp
  have d: "remove_highlight (ensure_container page_document) = page_document"
    by code_simp
  from remove_highlight_idempotent [of page_document]
    remove_highlight_idempotent [of "ensure_container page_document"] a b c d
  show ?thesis by simp
qed

text \<open>Drawing keeps the container unique.\<close>

lemma count_id_append:
  "count_id i (xs @ ys) = count_id i xs + count_id i ys"
  by (induction xs) auto

lemma count_id_append_to_documentElement:
  "count_id i (append_to_documentElement c ns) \<le> count_id i ns + count_id_node i c"
  by (induction c ns rule: append_to_documentElement.induct) (auto simp: count_id_append)

lemma ensure_container_unique:
  "count_id container_id doc \<le> 1 \<Longrightarrow> count_id container_id (ensure_container doc) \<le> 1"
proof (cases "getElementById container_id doc")
  case None
  assume "count_id container_id doc \<le> 1"
  from None have "count_id container_id doc = 0"
    by (simp add: count_id_zero)
  moreover have "count_id_node container_id container = 1"
    by (simp add: container_def getAttribute_def plain_element_def)
  ultimately show ?thesis
    using count_id_append_to_documentElement [of container_id container doc] None
    by (simp add: ensure_container_def)
next
  case (Some a)
  assume "count_id container_id doc \<le> 1"
  with Some show ?thesis by (simp add: ensure_container_def)
qed

section \<open>Properties of the snapshot builder\<close>

lemma parse_children_append:
  "parse_children (xs @ ys) = parse_children xs @ parse_children ys"
proof (induction xs)
  case Nil
  then show ?case by simp
next
  case (Cons a xs)
  then show ?case by (cases a) auto
qed

lemma indices_children_append:
  "indices_children (xs @ ys) = indices_children xs @ indices_children ys"
  by (induction xs) auto

lemma index_iff_qualifies_children_append:
  "index_iff_qualifies_children (xs @ ys) =
     (index_iff_qualifies_children xs \<and> index_iff_qualifies_children ys)"
  by (induction xs) auto

lemma upto_glue:
  fixes a b c :: int
  assumes "a \<le> b" and "b \<le> c"
  shows "[a..b - 1] @ [b..c - 1] = [a..c - 1]"
proof (cases "a = b")
  case True
  then show ?thesis by simp
next
  case False
  with assms have "a \<le> b - 1" and "b - 1 \<le> c - 1" by auto
  from upto_split2 [OF this] show ?thesis by simp
qed

lemma numbered_refl: "numbered st [] st"
  by (simp add: numbered_def)

lemma numbered_append:
  assumes "numbered st xs st1" and "numbered st1 ys st2"
  shows "numbered st (xs @ ys) st2"
  using assms upto_glue [of "highlightIndex st" "highlightIndex st1" "highlightIndex st2"]
  by (simp add: numbered_def indices_children_append index_iff_qualifies_children_append)

lemma highlightElement_counter [simp]:
  "highlightIndex (highlightElement e i pf st) = highlightIndex st"
  by (simp add: highlightElement_def Let_def)

lemma assign_index_cases:
  "(fst (assign_index env pf e st) = None \<and>
      highlightIndex (snd (assign_index env pf e st)) = highlightIndex st \<and>
      \<not> (isInteractiveElement e \<and> isElementVisible e \<and> isTopElement e)) \<or>
   (fst (assign_index env pf e st) = Some (highlightIndex st) \<and>
      highlightIndex (snd (assign_index env pf e st)) = highlightIndex st + 1 \<and>
      isInteractiveElement e \<and> isElementVisible e \<and> isTopElement e)"
  by (simp add: assign_index_def Let_def)

lemma numbered_element:
  assumes a: "a = assign_index env pf e st"
    and g: "numbered (snd a) cs st'"
    and v: "en_highlightIndex i = fst a" "en_isVisible i = isElementVisible e"
      "en_isInteractive i = isInteractiveElement e" "en_isTopElement i = isTopElement e"
  shows "numbered st [ElemNode i cs] st'"
proof -
  from assign_index_cases [of env pf e st] a
  consider (none) "fst a = None" "highlightIndex (snd a) = highlightIndex st"
      "\<not> (isInteractiveElement e \<and> isElementVisible e \<and> isTopElement e)"
    | (some) "fst a = Some (highlightIndex st)" "highlightIndex (snd a) = highlightIndex st + 1"
      "isInteractiveElement e \<and> isElementVisible e \<and> isTopElement e"
    by auto
  then show ?thesis
  proof cases
    case none
    with g v show ?thesis by (auto simp: numbered_def)
  next
    case some
    from g some have le: "highlightIndex st \<le> highlightIndex st' - 1"
      by (simp add: numbered_def)
    from g some v show ?thesis
      by (simp add: numbered_def upto_rec1 [OF le])
  qed
qed

lemma build_numbered:
  shows "numbered st (parse_children [fst (buildDomTree env pf prev up n st)])
           (snd (buildDomTree env pf prev up n st))"
    and "numbered st (parse_children (fst (buildChildren env pf prev up ns st)))
           (snd (buildChildren env pf prev up ns st))"
proof (induction env pf prev up n st and env pf prev up ns st
    rule: buildDomTree_buildChildren.induct)
  case (1 env pf prev up t st)
  then show ?case by (simp add: Let_def numbered_def)
next
  case (2 env pf prev up st)
  then show ?case by (simp add: numbered_def or_false_def)
next
  case (3 env pf prev up e shadow frame kids st)
  show ?case
  proof (cases "isElementAccepted e")
    case False
    then show ?thesis by (simp add: numbered_refl)
  next
    case True
    define a where "a = assign_index env pf e st"
    define sh where "sh = (if el_has_shadowRoot e
        then buildChildren env pf [] (ShadowRootParent (\<not> pf)) shadow (snd a)
        else ([], snd a))"
    define ch where "ch = (if el_tagName e = ''IFRAME'' then
          (if el_frame_accessible e then buildChildren env True [] body_location frame (snd sh)
           else ([], snd sh))
        else buildChildren env pf [] (ElementParent False (el_tagName e) prev up) kids (snd sh))"
    have g1: "numbered (snd a) (parse_children (fst sh)) (snd sh)"
      using 3(1) [of a "fst a" "snd a"] True
      by (simp add: sh_def a_def numbered_refl)
    have g2: "numbered (snd sh) (parse_children (fst ch)) (snd ch)"
      using 3(2) [of a "fst a" "snd a" sh "fst sh" "snd sh"]
        3(3) [of a "fst a" "snd a" sh "fst sh" "snd sh"] True
      by (simp add: ch_def sh_def a_def numbered_refl)
    have g: "numbered (snd a) (parse_children (fst sh @ fst ch)) (snd ch)"
      using numbered_append [OF g1 g2] by (simp add: parse_children_append)
    have res: "buildDomTree env pf prev up (Element e shadow frame kids) st =
      (Some (NodeData
               \<lparr> nd_tagName = tag_data e, nd_attributes = own_attributes (el_attributes e),
                 nd_xpath = Some (getXPathTree (el_tagName e) prev up True),
                 nd_isInteractive = Some (isInteractiveElement e),
                 nd_isVisible = Some (isElementVisible e),
                 nd_isTopElement = Some (isTopElement e),
                 nd_highlightIndex = fst a, nd_shadowRoot = el_has_shadowRoot e \<rparr>
               (fst sh @ fst ch)), snd ch)"
      using True by (simp add: a_def sh_def ch_def split_beta Let_def)
    show ?thesis
      unfolding res
      using numbered_element [OF a_def g]
      by (simp add: or_false_def)
  qed
next
  case (4 env pf prev up st)
  then show ?case by (simp add: numbered_refl)
next
  case (5 env pf prev up child rest st)
  define r where "r = buildDomTree env pf prev up child st"
  define rs where "rs = buildChildren env pf (sibling_of child # prev) up rest (snd r)"
  have g1: "numbered st (parse_children [fst r]) (snd r)"
    using 5(1) by (simp add: r_def)
  have g2: "numbered (snd r) (parse_children (fst rs)) (snd rs)"
    using 5(2) [of r "fst r" "snd r"] by (simp add: r_def rs_def)
  have res: "buildChildren env pf prev up (child # rest) st = (fst r # fst rs, snd rs)"
    by (simp add: r_def rs_def split_beta Let_def)
  have "parse_children (fst r # fst rs) = parse_children [fst r] @ parse_children (fst rs)"
    using parse_children_append [of "[fst r]" "fst rs"] by simp
  with numbered_append [OF g1 g2] show ?case
    unfolding res by simp
qed

lemma upto_map_int: "[0..int n - 1] = map int [0..<n]"
proof (induction n)
  case 0
  then show ?case by simp
next
  case (Suc n)
  have "[0..int (Suc n) - 1] = [0..int n - 1] @ [int n]"
    using upto_rec2 [of 0 "int n"] by simp
  with Suc show ?case by simp
qed

lemma element_tree_numbered:
  assumes "element_tree_of env body = Some t"
  shows "\<exists>k. 0 \<le> k \<and> indices t = [0..k - 1] \<and> index_iff_qualifies t"
proof -
  from assms obtain d where d: "fst (build_dom_tree env body) = Some d" and t: "t = parse_node d"
    by (auto simp: element_tree_of_def)
  from build_numbered(1) [of new_builder env False body_prev html_location body] d t
  have "numbered new_builder [t] (snd (build_dom_tree env body))"
    by (simp add: build_dom_tree_def)
  then show ?thesis
    by (auto simp: numbered_def new_builder_def)
qed

text \<open>
  Claim C1. In the element tree of every snapshot, the highlight indices read in
  pre-order are exactly \<open>0, 1, ..., n - 1\<close>: non-negative, without gaps, strictly
  increasing in pre-order and so pairwise distinct; and an element carries an index
  exactly when it is visible, interactive and topmost.
\<close>

theorem highlight_indices_dense:
  assumes "element_tree_of env body = Some t"
  shows "indices t = map int [0..<length (indices t)] \<and>
         sorted_wrt (<) (indices t) \<and> distinct (indices t) \<and> index_iff_qualifies t"
proof -
  from element_tree_numbered [OF assms] obtain k
    where k: "0 \<le> k" "indices t = [0..k - 1]" "index_iff_qualifies t"
    by blast
  from k(1) have "[0..k - 1] = map int [0..<nat k]"
    using upto_map_int [of "nat k"] by simp
  with k have eq: "indices t = map int [0..<nat k]"
    by simp
  then have len: "length (indices t) = nat k"
    by simp
  have "sorted_wrt (<) (map int [0..<nat k])"
    by (simp add: sorted_wrt_map sorted_wrt_iff_nth_less)
  moreover have "distinct (map int [0..<nat k])"
    by (simp add: distinct_map)
  ultimately show ?thesis
    using eq len k(3) by simp
qed

theorem highlight_indices_dense_witness:
  "element_tree_of env0 sample_body = Some sample_tree \<and>
   indices sample_tree = [0, 1, 2, 3] \<and>
   sorted_wrt (<) (indices sample_tree) \<and> distinct (indices sample_tree) \<and>
   index_iff_qualifies sample_tree"
proof -
  have "[0..<4] = [0, 1, 2, 3]"
    by code_simp
  with highlight_indices_dense [OF sample_tree_eval] sample_tree_eval sample_indices
  show ?thesis
    by simp
qed

section \<open>Properties of the locators\<close>













section \<open>Properties of the text serialization\<close>

subsection \<open>Trimming, joining and splitting\<close>

subsection \<open>Strings\<close>

lemma is_space_lf [simp]: "is_space (CHR 0x0A)"
  by (simp add: is_space_def)










lemma replace_newlines_from_lf_free: "CHR 0x0A \<notin> set (replace_newlines_from b s)"
  by (induction s arbitrary: b) auto

lemma replace_newlines_lf_free [simp]: "CHR 0x0A \<notin> set (replace_newlines s)"
  by (simp add: replace_newlines_def replace_newlines_from_lf_free)


lemma digit_char_not_lf: "n < 10 \<Longrightarrow> digit_char n \<noteq> CHR 0x0A"
proof
  assume n: "n < 10" and e: "digit_char n = CHR 0x0A"
  then have "(of_char (digit_char n) :: nat) = of_char (CHR 0x0A)"
    by simp
  with n show False
    by (simp add: digit_char_def)
qed

lemma lf_not_digit_char: "n < 10 \<Longrightarrow> CHR 0x0A \<noteq> digit_char n"
  using digit_char_not_lf [of n] by auto

lemma str_nat_lf_free: "CHR 0x0A \<notin> set (str_nat n)"
proof (induction n rule: str_nat.induct)
  case (1 n)
  show ?case
  proof (cases "n < 10")
    case True
    then show ?thesis
      by (subst str_nat.simps) (simp add: lf_not_digit_char)
  next
    case False
    with 1 have "CHR 0x0A \<notin> set (str_nat (n div 10))"
      by simp
    moreover have "CHR 0x0A \<noteq> digit_char (n mod 10)"
      by (rule lf_not_digit_char) simp
    ultimately show ?thesis
      using False by (subst str_nat.simps) simp
  qed
qed

lemma str_int_lf_free [simp]: "CHR 0x0A \<notin> set (str_int i)"
  by (simp add: str_int_def str_nat_lf_free)







subsection \<open>The entries of a snapshot\<close>


lemma toLowerCase_empty [simp]: "(toLowerCase s = []) = (s = [])"
  by (simp add: toLowerCase_def)













lemma attributes_str_single [simp]: "CHR 0x0A \<notin> set (attributes_str inh inc attrs)"
  by (simp add: attributes_str_def)



subsection \<open>The examples\<close>








end
